theory Spec2Isabelle
  imports Main "HOL-Library.Sublist"
begin

section \<open>Data model of the conversation list screen\<close>

text \<open>
  The conversation list screen (\<^verbatim>\<open>HomeScreen\<close>) keeps its conversations in a React state
  cell. A conversation is the \<^verbatim>\<open>Conversation\<close> interface of the source. The server may send
  \<^verbatim>\<open>unread_count\<close> as a string, a number or nothing at all, so the record is polymorphic
  in that field: a snapshot row carries a \<open>jsval\<close>, a row of the local list an \<open>int\<close>.
  \<^verbatim>\<open>last_message\<close> is optional because the event handler stores \<^verbatim>\<open>message.content\<close>,
  which the source treats as nullable (\<^verbatim>\<open>message.content ?? ''\<close>).
\<close>

datatype jsval = JStr string | JNum int | JNull

record 'u conversation_of =
  conversation_id :: nat
  other_user_id :: nat
  other_user_name :: string
  other_user_email :: string
  other_user_avatar :: string
  other_user_online :: bool
  other_user_last_seen :: string
  last_message :: "string option"
  last_message_time :: string
  last_message_sender_id :: nat
  unread_count :: 'u
  other_user_typing :: "bool option"

type_synonym conversation = "int conversation_of"
type_synonym raw_conversation = "jsval conversation_of"

subsection \<open>\<^verbatim>\<open>parseInt\<close> and the normalisation of \<^verbatim>\<open>unread_count\<close>\<close>

text \<open>
  \<^verbatim>\<open>parseInt(s)\<close> with no radix: leading white space is skipped, one sign is read, a
  \<^verbatim>\<open>0x\<close> prefix selects radix 16, the longest run of digits is the value, and no digit at
  all is \<^verbatim>\<open>NaN\<close> (here \<open>None\<close>). Strings are byte strings, so only the ASCII white space
  characters are recognised; numbers are unbounded integers.
\<close>

definition isStrWhiteSpace :: "char \<Rightarrow> bool" where
  "isStrWhiteSpace c \<longleftrightarrow> of_char c \<in> {9, 10, 11, 12, 13, 32 :: nat}"

definition digitValue :: "char \<Rightarrow> nat" where
  "digitValue c =
     (let n = (of_char c :: nat) in
      if 48 \<le> n \<and> n \<le> 57 then n - 48
      else if 97 \<le> n \<and> n \<le> 122 then n - 87
      else if 65 \<le> n \<and> n \<le> 90 then n - 55
      else 36)"

definition parseInt :: "string \<Rightarrow> int option" where
  "parseInt str =
     (let s = dropWhile isStrWhiteSpace str;
          negative = (take 1 s = ''-'');
          s1 = (if take 1 s = ''+'' \<or> take 1 s = ''-'' then drop 1 s else s);
          hex = (take 2 s1 = ''0x'' \<or> take 2 s1 = ''0X'');
          radix = (if hex then 16 else 10 :: nat);
          s2 = (if hex then drop 2 s1 else s1);
          z = takeWhile (\<lambda>c. digitValue c < radix) s2;
          v = foldl (\<lambda>acc c. acc * radix + digitValue c) 0 z
      in if z = [] then None
         else Some (if negative then - int v else int v))"

text \<open>\<^verbatim>\<open>x || 0\<close> on a number: \<^verbatim>\<open>0\<close> (and \<^verbatim>\<open>NaN\<close>) is falsy.\<close>

definition orZero :: "int \<Rightarrow> int" where
  "orZero x = (if x = 0 then 0 else x)"

text \<open>
  \<^verbatim>\<open>typeof c.unread_count === 'string' ? parseInt(c.unread_count) || 0 : c.unread_count || 0\<close>
\<close>

definition processUnreadCount :: "jsval \<Rightarrow> int" where
  "processUnreadCount u =
     (case u of
        JStr s \<Rightarrow> (case parseInt s of None \<Rightarrow> 0 | Some n \<Rightarrow> orZero n)
      | JNum n \<Rightarrow> orZero n
      | JNull \<Rightarrow> 0)"

text \<open>\<^verbatim>\<open>{ ...conv, unread_count: ... }\<close> on a row of the server response.\<close>

definition processConversation :: "raw_conversation \<Rightarrow> conversation" where
  "processConversation c =
     \<lparr> conversation_id = conversation_id c,
       other_user_id = other_user_id c,
       other_user_name = other_user_name c,
       other_user_email = other_user_email c,
       other_user_avatar = other_user_avatar c,
       other_user_online = other_user_online c,
       other_user_last_seen = other_user_last_seen c,
       last_message = last_message c,
       last_message_time = last_message_time c,
       last_message_sender_id = last_message_sender_id c,
       unread_count = processUnreadCount (unread_count c),
       other_user_typing = other_user_typing c \<rparr>"

subsection \<open>Messages and the \<^verbatim>\<open>message:new\<close> payload\<close>

text \<open>
  The \<^verbatim>\<open>Message\<close> interface of the chat screen. \<^verbatim>\<open>id\<close> and \<^verbatim>\<open>conversation_id\<close> are
  renamed because the names are taken. The list screen reads \<^verbatim>\<open>message.id ?? ''\<close> and
  \<^verbatim>\<open>message.content ?? ''\<close>, so both fields are optional. The payload of a
  \<^verbatim>\<open>message:new\<close> event is a message that also carries \<^verbatim>\<open>conversationId\<close>.
\<close>

datatype delivery_status = StatusSent | StatusDelivered | StatusRead

record message =
  msg_id :: "nat option"
  msg_conversation_id :: nat
  sender_id :: nat
  content :: "string option"
  message_type :: string
  is_delivered :: bool
  is_read :: bool
  delivered_at :: "string option"
  read_at :: "string option"
  created_at :: string
  sender_name :: string
  deliveryStatus :: "delivery_status option"

record new_message = message +
  conversationId :: nat

subsection \<open>State of the screen and what a render captures\<close>

text \<open>
  \<^verbatim>\<open>HomeScreen\<close> is a function component. Its state hooks are cells that the setters
  write; its refs (\<^verbatim>\<open>processedMessageKeysRef\<close>, \<^verbatim>\<open>updateTimeoutRef\<close>) are cells that every
  function reads and writes directly. The identifiers \<^verbatim>\<open>currentUser\<close>, \<^verbatim>\<open>conversations\<close>,
  \<^verbatim>\<open>isUpdatingConversations\<close> and \<^verbatim>\<open>lastMessageUpdate\<close> inside a function body are
  constants of the render that created the function: they hold what the cells held at that
  render and never change afterwards. A \<open>closure\<close> is that captured view
  (\<open>seen_currentUser\<close> is \<^verbatim>\<open>currentUser?.id\<close>), and every function below that reads one of
  the four identifiers takes the closure of its instance as an argument. Only the argument
  \<^verbatim>\<open>prev\<close> of a functional state update is the cell's current value.

  The mount effect (\<^verbatim>\<open>useEffect(..., [])\<close>) runs once and uses the functions of the first
  render, so the listeners and the intervals it sets up hold the closure \<open>firstRender\<close>.
\<close>

datatype log_line = Log string | Err string

datatype screen = Home | Login

record closure =
  seen_currentUser :: "nat option"
  seen_conversations :: "conversation list"
  seen_isUpdatingConversations :: bool
  seen_lastMessageUpdate :: nat

text \<open>The initial values of the four \<^verbatim>\<open>useState\<close> hooks.\<close>

definition firstRender :: closure where
  "firstRender =
     \<lparr>seen_currentUser = None, seen_conversations = [],
      seen_isUpdatingConversations = False, seen_lastMessageUpdate = 0\<rparr>"

text \<open>
  A timer holds the callback of the function instance that started it: the silent update
  of a closure, or the delayed sync after a message with its value of \<^verbatim>\<open>now\<close>.
\<close>

datatype timer_callback = SilentUpdate closure | SyncAfterMessage closure nat

record timer =
  timer_id :: nat
  due :: nat
  callback :: timer_callback

text \<open>
  Next to the cells stand the parts of the environment the functions act on: the closures
  with which \<^verbatim>\<open>setupSocketListeners\<close> has registered listeners on the socket, in the order
  of registration, the timer queue of \<^verbatim>\<open>setTimeout\<close> with a clock in milliseconds, the two
  \<^verbatim>\<open>AsyncStorage\<close> items, the route, the console, and a count of the calls of
  \<^verbatim>\<open>conversationsAPI.getAll\<close>. The typing map and the pull-to-refresh flag are left out:
  no function below reads or writes them.
\<close>

record home_state =
  conversations :: "conversation list"
  currentUser :: "nat option"
  processedMessageKeys :: "string set"
  isUpdatingConversations :: bool
  lastMessageUpdate :: nat
  loading :: bool
  updateTimeoutRef :: "nat option"
  listeners :: "closure list"
  timers :: "timer list"
  nextTimerId :: nat
  clock :: nat
  authToken :: "string option"
  storedUser :: "string option"
  route :: screen
  pulls :: nat
  console :: "log_line list"

text \<open>The closure of a render that happens in a given state.\<close>

definition render :: "home_state \<Rightarrow> closure" where
  "render s =
     \<lparr>seen_currentUser = currentUser s, seen_conversations = conversations s,
      seen_isUpdatingConversations = isUpdatingConversations s,
      seen_lastMessageUpdate = lastMessageUpdate s\<rparr>"

definition console_log :: "string \<Rightarrow> home_state \<Rightarrow> home_state" where
  "console_log l s = s\<lparr>console := console s @ [Log l]\<rparr>"

definition console_error :: "string \<Rightarrow> home_state \<Rightarrow> home_state" where
  "console_error l s = s\<lparr>console := console s @ [Err l]\<rparr>"

definition setTimeout :: "timer_callback \<Rightarrow> nat \<Rightarrow> home_state \<Rightarrow> nat \<times> home_state" where
  "setTimeout cb delay s =
     (nextTimerId s,
      s\<lparr>timers := timers s @ [\<lparr>timer_id = nextTimerId s, due = clock s + delay, callback = cb\<rparr>],
        nextTimerId := Suc (nextTimerId s)\<rparr>)"

definition clearTimeout :: "nat \<Rightarrow> home_state \<Rightarrow> home_state" where
  "clearTimeout i s = s\<lparr>timers := filter (\<lambda>t. timer_id t \<noteq> i) (timers s)\<rparr>"


subsection \<open>The pull and its failure\<close>

text \<open>
  \<^verbatim>\<open>conversationsAPI.getAll()\<close> either resolves to the response body (\<^verbatim>\<open>success\<close>,
  \<^verbatim>\<open>conversations\<close>) or rejects with an error whose \<^verbatim>\<open>error.response?.status\<close> is given
  (\<open>None\<close> for a network error, which has no response). Before the caller sees a
  rejection, the response interceptor of the HTTP client removes both storage items on
  status 401, and \<^verbatim>\<open>getAll\<close> itself logs the error and throws it again.
\<close>

datatype pull_result = Response bool "raw_conversation list" | Rejected "nat option"

definition responseInterceptor :: "nat option \<Rightarrow> home_state \<Rightarrow> home_state" where
  "responseInterceptor status s =
     (if status = Some 401 then s\<lparr>authToken := None, storedUser := None\<rparr> else s)"

definition getAll_rejected :: "nat option \<Rightarrow> home_state \<Rightarrow> home_state" where
  "getAll_rejected status s =
     console_error ''Error fetching conversations:'' (responseInterceptor status s)"

subsection \<open>Snapshot merge: \<^verbatim>\<open>updateConversationsSilently\<close>\<close>

definition shouldPreserveUnreadCount :: "conversation \<Rightarrow> conversation \<Rightarrow> bool" where
  "shouldPreserveUnreadCount existingConv newConv \<longleftrightarrow>
     last_message_time existingConv = last_message_time newConv \<and>
     last_message existingConv = last_message newConv \<and>
     last_message_sender_id existingConv = last_message_sender_id newConv"

definition finalUnreadCount :: "conversation \<Rightarrow> conversation \<Rightarrow> int" where
  "finalUnreadCount existingConv newConv =
     (if shouldPreserveUnreadCount existingConv newConv \<and>
         unread_count existingConv > unread_count newConv
      then unread_count existingConv
      else unread_count newConv)"

text \<open>The body of \<^verbatim>\<open>processedConversations.map\<close> inside the state updater.\<close>

definition mergeConversation :: "conversation list \<Rightarrow> conversation \<Rightarrow> conversation" where
  "mergeConversation prev newConv =
     (case find (\<lambda>c. conversation_id c = conversation_id newConv) prev of
        Some existingConv \<Rightarrow>
          newConv\<lparr>other_user_typing := other_user_typing existingConv,
                  unread_count := finalUnreadCount existingConv newConv\<rparr>
      | None \<Rightarrow> newConv)"

definition mergeSnapshot :: "conversation list \<Rightarrow> conversation list \<Rightarrow> conversation list" where
  "mergeSnapshot prev processedConversations = map (mergeConversation prev) processedConversations"

text \<open>
  The debugging loop that logs every conversation whose unread count the pull changes. It
  compares with \<^verbatim>\<open>conversations\<close>, the list its closure has captured.
\<close>

definition unreadSyncLog :: "conversation list \<Rightarrow> conversation list \<Rightarrow> log_line list" where
  "unreadSyncLog currentConversations processedConversations =
     map (\<lambda>_. Log ''Unread count sync'')
       (filter (\<lambda>newConv.
          case find (\<lambda>c. conversation_id c = conversation_id newConv) currentConversations of
            Some oldConv \<Rightarrow> unread_count oldConv \<noteq> unread_count newConv
          | None \<Rightarrow> False) processedConversations)"

text \<open>
  The call itself: dropped with a log line when the captured \<^verbatim>\<open>isUpdatingConversations\<close>
  is true, else the pending timer is cleared and a new one of 500 ms is started. The handle
  of a timer is an object (\<^verbatim>\<open>NodeJS.Timeout\<close>), so \<^verbatim>\<open>if (updateTimeoutRef.current)\<close> tests
  for \<^verbatim>\<open>null\<close> only.
\<close>

definition updateConversationsSilently :: "closure \<Rightarrow> home_state \<Rightarrow> home_state" where
  "updateConversationsSilently k s =
     (if seen_isUpdatingConversations k
      then console_log ''Conversation update already in progress, skipping...'' s
      else
        let s1 = (case updateTimeoutRef s of Some i \<Rightarrow> clearTimeout i s | None \<Rightarrow> s);
            (i, s2) = setTimeout (SilentUpdate k) 500 s1
        in s2\<lparr>updateTimeoutRef := Some i\<rparr>)"

text \<open>
  The timer's callback up to its \<^verbatim>\<open>await\<close>: the cell \<^verbatim>\<open>isUpdatingConversations\<close> is set
  and the pull is issued.
\<close>

definition updateConversationsSilently_timeout :: "home_state \<Rightarrow> home_state" where
  "updateConversationsSilently_timeout s =
     (console_log ''Syncing conversations with server for accurate unread counts...''
        (s\<lparr>isUpdatingConversations := True\<rparr>))\<lparr>pulls := Suc (pulls s)\<rparr>"

text \<open>
  The rest of the callback, run when the pull settles. The merge is a functional update
  and works on the current list; \<^verbatim>\<open>finally\<close> resets the cell.
\<close>

definition updateConversationsSilently_settled ::
    "closure \<Rightarrow> pull_result \<Rightarrow> home_state \<Rightarrow> home_state" where
  "updateConversationsSilently_settled k r s =
     (let s' =
        (case r of
           Response success convs \<Rightarrow>
             if success then
               let processedConversations = map processConversation convs;
                   s1 = s\<lparr>console := console s @
                                unreadSyncLog (seen_conversations k) processedConversations\<rparr>;
                   s2 = s1\<lparr>conversations := mergeSnapshot (conversations s1) processedConversations\<rparr>
               in console_log ''Synced conversations with server'' s2
             else s
         | Rejected status \<Rightarrow>
             console_error ''Error silently updating conversations:'' (getAll_rejected status s))
      in s'\<lparr>isUpdatingConversations := False\<rparr>)"

subsection \<open>Full load and presence refresh\<close>

definition forceLogout :: "home_state \<Rightarrow> home_state" where
  "forceLogout s = s\<lparr>authToken := None, storedUser := None, route := Login\<rparr>"

definition loadConversations :: "home_state \<Rightarrow> home_state" where
  "loadConversations s = s\<lparr>loading := True, pulls := Suc (pulls s)\<rparr>"

definition loadConversations_settled :: "pull_result \<Rightarrow> home_state \<Rightarrow> home_state" where
  "loadConversations_settled r s =
     (let s' =
        (case r of
           Response success convs \<Rightarrow>
             if success then
               console_log ''Loaded conversations with processed unread counts''
                 (s\<lparr>conversations := map processConversation convs\<rparr>)
             else s
         | Rejected status \<Rightarrow>
             let s1 = console_error ''Error loading conversations:'' (getAll_rejected status s)
             in if status = Some 401 then forceLogout s1 else s1)
      in s'\<lparr>loading := False\<rparr>)"

definition refreshUserStatus :: "home_state \<Rightarrow> home_state" where
  "refreshUserStatus s = s\<lparr>pulls := Suc (pulls s)\<rparr>"

definition refreshUserStatus_settled :: "pull_result \<Rightarrow> home_state \<Rightarrow> home_state" where
  "refreshUserStatus_settled r s =
     (case r of
        Response success convs \<Rightarrow>
          if success then
            console_log ''Refreshed user online status while preserving conversation data''
              (s\<lparr>conversations :=
                   map (\<lambda>conv.
                     case find (\<lambda>c. conversation_id c = conversation_id conv) convs of
                       Some updatedUser \<Rightarrow>
                         conv\<lparr>other_user_online := other_user_online updatedUser,
                              other_user_last_seen :=
                                (if other_user_last_seen updatedUser \<noteq> []
                                 then other_user_last_seen updatedUser
                                 else other_user_last_seen conv)\<rparr>
                     | None \<Rightarrow> conv) (conversations s)\<rparr>)
          else s
      | Rejected status \<Rightarrow>
          let s1 = console_error ''Error refreshing user status:'' (getAll_rejected status s)
          in if status = Some 401 then forceLogout s1 else s1)"

subsection \<open>Event-driven merge: the \<^verbatim>\<open>message:new\<close> handler\<close>

text \<open>Decimal rendering of a number inside the template literal of the key.\<close>

fun showNat :: "nat \<Rightarrow> string" where
  "showNat n =
     (if n < 10 then [char_of (48 + n)]
      else showNat (n div 10) @ [char_of (48 + n mod 10)])"

definition messageKey :: "new_message \<Rightarrow> string" where
  "messageKey m =
     (case msg_id m of None \<Rightarrow> [] | Some i \<Rightarrow> showNat i) @ ''|'' @
     showNat (conversationId m) @ ''|'' @
     showNat (sender_id m) @ ''|'' @
     created_at m @ ''|'' @
     (case content m of None \<Rightarrow> [] | Some c \<Rightarrow> c)"

text \<open>
  \<^verbatim>\<open>updateConversationWithNewMessage\<close>. The sender is compared with the captured
  \<^verbatim>\<open>currentUser?.id\<close>; the list is updated functionally. The local unread count is a
  number, so of \<^verbatim>\<open>typeof conv.unread_count === 'string' ? ... : conv.unread_count || 0\<close>
  only the second branch applies.
\<close>

definition updateConversationWithNewMessage ::
    "closure \<Rightarrow> new_message \<Rightarrow> home_state \<Rightarrow> home_state" where
  "updateConversationWithNewMessage k m s =
     (console_log ''Updating conversation with new message:'' s)
       \<lparr>conversations :=
          map (\<lambda>conv.
            if conversation_id conv = conversationId m then
              let currentUnreadCount = orZero (unread_count conv);
                  newUnreadCount =
                    (if Some (sender_id m) \<noteq> seen_currentUser k
                     then currentUnreadCount + 1 else currentUnreadCount)
              in conv\<lparr>last_message := content m,
                      last_message_time := created_at m,
                      last_message_sender_id := sender_id m,
                      unread_count := newUnreadCount,
                      other_user_online := other_user_online conv,
                      other_user_last_seen := other_user_last_seen conv,
                      other_user_typing := other_user_typing conv\<rparr>
            else conv) (conversations s)\<rparr>"

text \<open>\<^verbatim>\<open>clearUnreadCountForConversation\<close> and \<^verbatim>\<open>updateUserOnlineStatus\<close>.\<close>

definition clearUnreadCountForConversation :: "nat \<Rightarrow> home_state \<Rightarrow> home_state" where
  "clearUnreadCountForConversation cid s =
     (console_log ''Clearing unread count for conversation:'' s)
       \<lparr>conversations :=
          map (\<lambda>conv. if conversation_id conv = cid then conv\<lparr>unread_count := 0\<rparr> else conv)
            (conversations s)\<rparr>"

definition updateUserOnlineStatus :: "nat \<Rightarrow> bool \<Rightarrow> home_state \<Rightarrow> home_state" where
  "updateUserOnlineStatus userId isOnline s =
     (console_log ''Updating user online status'' s)
       \<lparr>conversations :=
          map (\<lambda>conv. if other_user_id conv = userId
                       then conv\<lparr>other_user_online := isOnline\<rparr> else conv)
            (conversations s)\<rparr>"

text \<open>
  \<^verbatim>\<open>checkAndAddNewConversation\<close> up to its \<^verbatim>\<open>await\<close>, and its continuation when the pull
  settles. The first lookup is in the captured \<^verbatim>\<open>conversations\<close>; the check before the
  insertion is inside a functional update and sees the current list.
\<close>

definition checkAndAddNewConversation ::
    "closure \<Rightarrow> new_message \<Rightarrow> home_state \<Rightarrow> home_state" where
  "checkAndAddNewConversation k m s =
     (case find (\<lambda>conv. conversation_id conv = conversationId m) (seen_conversations k) of
        None \<Rightarrow> (console_log ''New conversation detected, fetching details...'' s)
                   \<lparr>pulls := Suc (pulls s)\<rparr>
      | Some existingConversation \<Rightarrow> console_log ''Conversation already exists in list'' s)"

definition checkAndAddNewConversation_settled ::
    "closure \<Rightarrow> new_message \<Rightarrow> pull_result \<Rightarrow> home_state \<Rightarrow> home_state" where
  "checkAndAddNewConversation_settled k m r s =
     (case r of
        Response success convs \<Rightarrow>
          if success then
            (case find (\<lambda>conv. conversation_id conv = conversationId m) convs of
               Some newConversation \<Rightarrow>
                 let s1 = console_log ''Adding new conversation to list:'' s;
                     processedConversation = processConversation newConversation
                 in if list_ex (\<lambda>conv. conversation_id conv = conversationId m) (conversations s1)
                    then console_log ''Conversation already exists, skipping...'' s1
                    else s1\<lparr>conversations := processedConversation # conversations s1\<rparr>
             | None \<Rightarrow> updateConversationsSilently k s)
          else s
      | Rejected status \<Rightarrow>
          console_error ''Error checking/adding new conversation:'' (getAll_rejected status s))"

text \<open>
  The \<^verbatim>\<open>message:new\<close> listener of the list screen. The set of processed keys is a ref,
  shared by all instances of the listener. \<^verbatim>\<open>Date.now()\<close> is the clock; the delayed sync
  is a timer of 1000 ms that remembers the value of \<^verbatim>\<open>now\<close> and compares it with the
  captured \<^verbatim>\<open>lastMessageUpdate\<close>.
\<close>

definition onNewMessage :: "closure \<Rightarrow> new_message \<Rightarrow> home_state \<Rightarrow> home_state" where
  "onNewMessage k m s =
     (let s0 = console_log ''New message received in conversation list:'' s in
      if conversationId m \<noteq> 0 then
        if messageKey m \<in> processedMessageKeys s0
        then console_log ''Skipping duplicate message for unread increment:'' s0
        else
          let s1 = s0\<lparr>processedMessageKeys := insert (messageKey m) (processedMessageKeys s0)\<rparr>;
              s2 = updateConversationWithNewMessage k m s1;
              s3 = checkAndAddNewConversation k m s2;
              now = clock s3;
              s4 = s3\<lparr>lastMessageUpdate := now\<rparr>;
              (i, s5) = setTimeout (SyncAfterMessage k now) 1000 s4
          in s5
      else s0)"

subsection \<open>Read and opened acknowledgments\<close>

text \<open>
  Three listeners with the same guard: \<^verbatim>\<open>message:read\<close>, \<^verbatim>\<open>conversation_opened\<close> and the
  custom \<^verbatim>\<open>conversation_opened\<close> event of the chat screen. \<^verbatim>\<open>data.userId\<close> may be missing,
  and the captured \<^verbatim>\<open>currentUser?.id\<close> is undefined when the closure was made before the
  user was loaded; \<^verbatim>\<open>===\<close> compares the two.
\<close>

definition onMessageRead :: "closure \<Rightarrow> nat \<Rightarrow> nat option \<Rightarrow> home_state \<Rightarrow> home_state" where
  "onMessageRead k cid userId s =
     (let s0 = console_log ''Messages marked as read:'' s in
      if cid \<noteq> 0 \<and> userId = seen_currentUser k
      then clearUnreadCountForConversation cid
             (console_log ''Clearing unread count - user marked as read'' s0)
      else console_log ''Ignoring message read event - not for current user'' s0)"

definition onConversationOpened ::
    "closure \<Rightarrow> nat \<Rightarrow> nat option \<Rightarrow> home_state \<Rightarrow> home_state" where
  "onConversationOpened k cid userId s =
     (let s0 = console_log ''Conversation opened:'' s in
      if cid \<noteq> 0 \<and> userId = seen_currentUser k
      then clearUnreadCountForConversation cid
             (console_log ''Clearing unread count - user opened it'' s0)
      else console_log ''Ignoring conversation opened event - not for current user'' s0)"

definition onCustomConversationOpened ::
    "closure \<Rightarrow> nat \<Rightarrow> nat option \<Rightarrow> home_state \<Rightarrow> home_state" where
  "onCustomConversationOpened k cid userId s =
     (let s0 = console_log ''Custom conversation opened event:'' s in
      if cid \<noteq> 0 \<and> userId = seen_currentUser k
      then clearUnreadCountForConversation cid
             (console_log ''Clearing unread count - user opened it'' s0)
      else console_log ''Ignoring conversation opened event - not for current user'' s0)"

text \<open>The other listeners that touch the conversations.\<close>

definition onConversationsUpdated :: "closure \<Rightarrow> nat option \<Rightarrow> home_state \<Rightarrow> home_state" where
  "onConversationsUpdated k userId s =
     (let s0 = console_log ''Conversations updated:'' s in
      if userId = seen_currentUser k
      then console_log ''Refreshed conversation list after conversations updated''
             (updateConversationsSilently k s0)
      else s0)"

definition onUserStatusChange :: "nat \<Rightarrow> bool \<Rightarrow> home_state \<Rightarrow> home_state" where
  "onUserStatusChange userId isOnline s =
     (let s0 = console_log ''User status changed:'' s in
      if userId \<noteq> 0 then updateUserOnlineStatus userId isOnline s0 else s0)"

subsection \<open>Registration and dispatch of the listeners\<close>

text \<open>
  \<^verbatim>\<open>setupSocketListeners\<close> adds one listener per event to the socket, never replacing the
  ones already there: after a second call an event reaches the listeners of the first
  call and then those of the second. \<^verbatim>\<open>removeAllListeners\<close> drops them all.
\<close>

definition setupSocketListeners :: "closure \<Rightarrow> home_state \<Rightarrow> home_state" where
  "setupSocketListeners k s = s\<lparr>listeners := listeners s @ [k]\<rparr>"

definition removeAllListeners :: "home_state \<Rightarrow> home_state" where
  "removeAllListeners s = s\<lparr>listeners := []\<rparr>"

datatype home_event =
    EvMessageNew new_message
  | EvMessageRead nat "nat option"
  | EvConversationOpened nat "nat option"
  | EvCustomConversationOpened nat "nat option"
  | EvConversationsUpdated "nat option"
  | EvUserStatusChange nat bool

fun listener :: "closure \<Rightarrow> home_event \<Rightarrow> home_state \<Rightarrow> home_state" where
  "listener k (EvMessageNew m) s = onNewMessage k m s"
| "listener k (EvMessageRead cid u) s = onMessageRead k cid u s"
| "listener k (EvConversationOpened cid u) s = onConversationOpened k cid u s"
| "listener k (EvCustomConversationOpened cid u) s = onCustomConversationOpened k cid u s"
| "listener k (EvConversationsUpdated u) s = onConversationsUpdated k u s"
| "listener k (EvUserStatusChange u b) s = onUserStatusChange u b s"

definition dispatch :: "home_event \<Rightarrow> home_state \<Rightarrow> home_state" where
  "dispatch e s = foldl (\<lambda>s' k. listener k e s') s (listeners s)"

subsection \<open>Timers\<close>

text \<open>
  A timer runs once, when the clock has reached its due time and it has not been cleared.
  When the clock moves, the timers that are due run in the order of their due times; a
  timer started by one of them is due later than the clock, so one pass is enough.
\<close>

definition runCallback :: "timer_callback \<Rightarrow> home_state \<Rightarrow> home_state" where
  "runCallback cb s =
     (case cb of
        SilentUpdate k \<Rightarrow> updateConversationsSilently_timeout s
      | SyncAfterMessage k now \<Rightarrow>
          if seen_lastMessageUpdate k = now then updateConversationsSilently k s else s)"

definition fireTimer :: "timer \<Rightarrow> home_state \<Rightarrow> home_state" where
  "fireTimer t s =
     (if list_ex (\<lambda>u. timer_id u = timer_id t) (timers s)
      then runCallback (callback t) (clearTimeout (timer_id t) s)
      else s)"

definition runDueTimers :: "home_state \<Rightarrow> home_state" where
  "runDueTimers s =
     foldl (\<lambda>s' t. fireTimer t s') s
       (sort_key due (filter (\<lambda>t. due t \<le> clock s) (timers s)))"

definition advanceTo :: "nat \<Rightarrow> home_state \<Rightarrow> home_state" where
  "advanceTo t s = runDueTimers (s\<lparr>clock := max (clock s) t\<rparr>)"

text \<open>
  A burst of calls of one instance of \<^verbatim>\<open>updateConversationsSilently\<close>, one at each of the
  given times.
\<close>

definition scheduleAt :: "closure \<Rightarrow> nat list \<Rightarrow> home_state \<Rightarrow> home_state" where
  "scheduleAt k ts s = foldl (\<lambda>s' t. updateConversationsSilently k (advanceTo t s')) s ts"

text \<open>The state with the console output erased: what the screen holds.\<close>

definition silent :: "home_state \<Rightarrow> home_state" where
  "silent s = s\<lparr>console := []\<rparr>"

text \<open>
  The state between the calls of a burst that began at time \<open>c0\<close> with \<open>p0\<close> pulls made:
  exactly one timer, which is the one the ref holds and runs a silent update 500 ms after
  the latest call, and less than 500 ms gone since \<open>c0\<close>.
\<close>

definition pendingUpdate :: "nat \<Rightarrow> nat \<Rightarrow> home_state \<Rightarrow> bool" where
  "pendingUpdate c0 p0 s \<longleftrightarrow>
     (case timers s of
        [t] \<Rightarrow> updateTimeoutRef s = Some (timer_id t) \<and> due t = clock s + 500 \<and>
               (case callback t of SilentUpdate k \<Rightarrow> True | SyncAfterMessage k n \<Rightarrow> False)
      | _ \<Rightarrow> False) \<and>
     c0 \<le> clock s \<and> clock s < c0 + 500 \<and> pulls s = p0"

section \<open>The chat screen\<close>

text \<open>
  \<^verbatim>\<open>ChatScreen\<close> holds the messages of one conversation. \<^verbatim>\<open>conversationId\<close> and
  \<^verbatim>\<open>otherUserId\<close> are fixed by the route parameters; \<open>chat_currentUser\<close> is the cell behind
  \<^verbatim>\<open>currentUser?.id\<close> of this screen. \<open>focused\<close> says whether the screen has the focus,
  \<open>chat_emitted\<close> lists the calls of \<^verbatim>\<open>socketService.emitCustomEvent\<close> the screen has made
  (event name, conversation id, user id).

  The socket listeners are registered once, by the mount effect. The only captured value
  they read is \<^verbatim>\<open>currentUser\<close>; each listener below takes it as its first argument
  \<open>user\<close>. For the listeners of the mount effect it is \<open>None\<close>.
\<close>

record chat_state =
  messages :: "message list"
  chat_currentUser :: "nat option"
  chat_conversationId :: nat
  otherUserId :: nat
  isTyping :: bool
  otherUserOnline :: bool
  focused :: bool
  chat_emitted :: "(string \<times> nat \<times> nat option) list"
  chat_console :: "log_line list"

definition chat_log :: "string \<Rightarrow> chat_state \<Rightarrow> chat_state" where
  "chat_log l s = s\<lparr>chat_console := chat_console s @ [Log l]\<rparr>"

text \<open>
  The \<^verbatim>\<open>message:new\<close> listener: a message whose id is already in the list is skipped,
  any other is appended with \<^verbatim>\<open>is_delivered\<close> taken from the event.
\<close>

definition chat_onNewMessage :: "new_message \<Rightarrow> chat_state \<Rightarrow> chat_state" where
  "chat_onNewMessage m s =
     (if conversationId m = chat_conversationId s then
        let s0 = chat_log ''Message delivery status'' (chat_log ''New message received in chat:'' s)
        in case find (\<lambda>msg. msg_id msg = msg_id m) (messages s0) of
             Some exists \<Rightarrow> chat_log ''Message already exists, skipping duplicate'' s0
           | None \<Rightarrow>
               let messageWithCorrectStatus =
                     (message.truncate m)
                       \<lparr>is_delivered := (deliveryStatus m = Some StatusDelivered \<or> is_delivered m)\<rparr>
               in (chat_log ''Final message object:'' (chat_log ''Adding new message to chat'' s0))
                    \<lparr>messages := messages s0 @ [messageWithCorrectStatus]\<rparr>
      else s)"

definition chat_onTypingStart ::
    "nat option \<Rightarrow> nat \<Rightarrow> nat option \<Rightarrow> chat_state \<Rightarrow> chat_state" where
  "chat_onTypingStart user cid userId s =
     (if cid = chat_conversationId s \<and> userId \<noteq> user
      then (chat_log ''Typing started by other user'' s)\<lparr>isTyping := True\<rparr>
      else s)"

definition chat_onTypingStop ::
    "nat option \<Rightarrow> nat \<Rightarrow> nat option \<Rightarrow> chat_state \<Rightarrow> chat_state" where
  "chat_onTypingStop user cid userId s =
     (if cid = chat_conversationId s \<and> userId \<noteq> user
      then (chat_log ''Typing stopped by other user'' s)\<lparr>isTyping := False\<rparr>
      else s)"

text \<open>
  \<^verbatim>\<open>updatePendingMessageDeliveryStatus\<close>: the own messages that are not yet delivered
  are promoted when the other user comes online, unless the captured \<^verbatim>\<open>currentUser\<close> is
  \<^verbatim>\<open>null\<close>.
\<close>

definition updatePendingMessageDeliveryStatus :: "nat option \<Rightarrow> chat_state \<Rightarrow> chat_state" where
  "updatePendingMessageDeliveryStatus user s =
     (if user = None then s
      else
        let pending = (\<lambda>msg. Some (sender_id msg) = user \<and> \<not> is_delivered msg)
        in s\<lparr>messages :=
                map (\<lambda>msg. if pending msg then msg\<lparr>is_delivered := True\<rparr> else msg) (messages s),
              chat_console :=
                chat_console s @
                map (\<lambda>_. Log ''Updating pending message to delivered status'')
                  (filter pending (messages s))\<rparr>)"

definition chat_onUserStatusChange ::
    "nat option \<Rightarrow> nat \<Rightarrow> bool \<Rightarrow> chat_state \<Rightarrow> chat_state" where
  "chat_onUserStatusChange user userId isOnline s =
     (if userId = otherUserId s then
        let s1 = (chat_log ''Other user status changed'' s)\<lparr>otherUserOnline := isOnline\<rparr>
        in if isOnline then updatePendingMessageDeliveryStatus user s1 else s1
      else s)"

definition chat_onUserTypingStatus :: "nat \<Rightarrow> bool \<Rightarrow> chat_state \<Rightarrow> chat_state" where
  "chat_onUserTypingStatus userId typing s =
     (if userId = otherUserId s
      then (chat_log ''Global typing status'' s)\<lparr>isTyping := typing\<rparr>
      else s)"

definition chat_onMessageDelivered :: "nat \<Rightarrow> nat option \<Rightarrow> chat_state \<Rightarrow> chat_state" where
  "chat_onMessageDelivered cid messageId s =
     (if cid = chat_conversationId s then
        (chat_log ''Message delivery status updated in chat''
           (chat_log ''Message delivered:'' s))
          \<lparr>messages :=
             map (\<lambda>msg. if msg_id msg = messageId then msg\<lparr>is_delivered := True\<rparr> else msg)
               (messages s)\<rparr>
      else s)"

text \<open>\<^verbatim>\<open>data.messageIds?.includes(msg.id)\<close>: false when the event carries no list.\<close>

definition includesId :: "nat list option \<Rightarrow> nat option \<Rightarrow> bool" where
  "includesId messageIds i =
     (case messageIds of
        None \<Rightarrow> False
      | Some ids \<Rightarrow> (case i of None \<Rightarrow> False | Some n \<Rightarrow> n \<in> set ids))"

definition chat_onMessageRead :: "nat \<Rightarrow> nat list option \<Rightarrow> chat_state \<Rightarrow> chat_state" where
  "chat_onMessageRead cid messageIds s =
     (if cid = chat_conversationId s then
        (chat_log ''Message read:'' s)
          \<lparr>messages :=
             map (\<lambda>msg. if includesId messageIds (msg_id msg) then msg\<lparr>is_read := True\<rparr> else msg)
               (messages s)\<rparr>
      else s)"

text \<open>The inbound events of the chat screen and the listener each one reaches.\<close>

datatype chat_event =
    MessageNew new_message
  | TypingStart nat "nat option"
  | TypingStop nat "nat option"
  | UserStatusChange nat bool
  | UserTypingStatus nat bool
  | MessageDelivered nat "nat option"
  | MessageRead nat "nat list option"

fun chat_handle :: "nat option \<Rightarrow> chat_event \<Rightarrow> chat_state \<Rightarrow> chat_state" where
  "chat_handle user (MessageNew m) s = chat_onNewMessage m s"
| "chat_handle user (TypingStart cid u) s = chat_onTypingStart user cid u s"
| "chat_handle user (TypingStop cid u) s = chat_onTypingStop user cid u s"
| "chat_handle user (UserStatusChange u b) s = chat_onUserStatusChange user u b s"
| "chat_handle user (UserTypingStatus u b) s = chat_onUserTypingStatus u b s"
| "chat_handle user (MessageDelivered cid i) s = chat_onMessageDelivered cid i s"
| "chat_handle user (MessageRead cid ids) s = chat_onMessageRead cid ids s"

subsection \<open>The focus effect\<close>

text \<open>
  \<^verbatim>\<open>notifyConversationListUnreadCleared\<close> and \<^verbatim>\<open>markMessagesAsRead\<close>, with the values of
  \<^verbatim>\<open>currentUser\<close> and \<^verbatim>\<open>messages\<close> their instance has captured; \<open>now\<close> is
  \<^verbatim>\<open>new Date().toISOString()\<close>. Marking sets \<^verbatim>\<open>is_read\<close> and \<^verbatim>\<open>read_at\<close> of the unread
  messages of the other user, by a functional update.
\<close>

definition notifyConversationListUnreadCleared :: "nat option \<Rightarrow> chat_state \<Rightarrow> chat_state" where
  "notifyConversationListUnreadCleared user s =
     chat_log ''Notified conversation list that conversation was opened''
       (s\<lparr>chat_emitted := chat_emitted s @ [(''conversation_opened'', chat_conversationId s, user)]\<rparr>)"

definition markMessagesAsRead ::
    "nat option \<Rightarrow> message list \<Rightarrow> string \<Rightarrow> chat_state \<Rightarrow> chat_state" where
  "markMessagesAsRead user seenMessages now s =
     (if user = None then s
      else
        let unread = (\<lambda>msg. Some (sender_id msg) \<noteq> user \<and> \<not> is_read msg);
            unreadMessages = filter unread seenMessages
        in if unreadMessages = [] then s
           else
             let s1 = chat_log ''Marking messages as read in conversation'' s;
                 s2 = s1\<lparr>chat_emitted := chat_emitted s1 @
                            [(''message:read'', chat_conversationId s1, user)]\<rparr>;
                 s3 = s2\<lparr>messages :=
                            map (\<lambda>msg. if unread msg then msg\<lparr>is_read := True, read_at := Some now\<rparr>
                                         else msg) (messages s2)\<rparr>
             in chat_log ''Marked messages as read locally'' s3)"

text \<open>
  The callback of \<^verbatim>\<open>useFocusEffect\<close>. It is memoised on \<^verbatim>\<open>currentUser\<close>, \<^verbatim>\<open>messages\<close> and
  \<^verbatim>\<open>conversationId\<close>, so the instance that runs has captured the current values of the
  cells. It also starts \<^verbatim>\<open>loadOtherUserStatus\<close>, a request whose answer, when it comes,
  sets \<^verbatim>\<open>otherUserOnline\<close>.
\<close>

definition focusEffect :: "string \<Rightarrow> chat_state \<Rightarrow> chat_state" where
  "focusEffect now s =
     (if chat_currentUser s \<noteq> None \<and> messages s \<noteq> [] then
        let unreadMessages =
              filter (\<lambda>msg. Some (sender_id msg) \<noteq> chat_currentUser s \<and> \<not> is_read msg) (messages s)
        in if unreadMessages \<noteq> [] then
             notifyConversationListUnreadCleared (chat_currentUser s)
               (markMessagesAsRead (chat_currentUser s) (messages s) now
                  (chat_log ''Found unread messages on focus, marking as read'' s))
           else s
      else if chat_currentUser s \<noteq> None \<and> messages s = [] then
        notifyConversationListUnreadCleared (chat_currentUser s) s
      else s)"

definition loadOtherUserStatus_settled :: "bool option \<Rightarrow> chat_state \<Rightarrow> chat_state" where
  "loadOtherUserStatus_settled is_online s =
     (case is_online of None \<Rightarrow> s | Some b \<Rightarrow> s\<lparr>otherUserOnline := b\<rparr>)"

text \<open>
  Whether a listener hands a new array to \<^verbatim>\<open>setMessages\<close>: \<^verbatim>\<open>prev.map\<close> and the appended
  list are new arrays, \<^verbatim>\<open>return prev\<close> is not. A new array changes \<^verbatim>\<open>messages\<close>, and with
  it the memoised callback, so a focused screen runs the focus effect again. (The run that
  follows the marking itself finds nothing unread and changes nothing.)
\<close>

fun setsMessages :: "nat option \<Rightarrow> chat_event \<Rightarrow> chat_state \<Rightarrow> bool" where
  "setsMessages user (MessageNew m) s =
     (conversationId m = chat_conversationId s \<and>
      find (\<lambda>msg. msg_id msg = msg_id m) (messages s) = None)"
| "setsMessages user (MessageDelivered cid i) s = (cid = chat_conversationId s)"
| "setsMessages user (MessageRead cid ids) s = (cid = chat_conversationId s)"
| "setsMessages user (UserStatusChange u b) s = (u = otherUserId s \<and> b \<and> user \<noteq> None)"
| "setsMessages user (TypingStart cid u) s = False"
| "setsMessages user (TypingStop cid u) s = False"
| "setsMessages user (UserTypingStatus u b) s = False"

text \<open>
  The arrival of an event at the screen: the listener, then the focus effect if the screen
  is focused and the messages have been replaced.
\<close>

definition chat_deliver :: "nat option \<Rightarrow> string \<times> chat_event \<Rightarrow> chat_state \<Rightarrow> chat_state" where
  "chat_deliver user ne s =
     (let s' = chat_handle user (snd ne) s
      in if focused s' \<and> setsMessages user (snd ne) s then focusEffect (fst ne) s' else s')"

text \<open>The states the screen is in while a list of events arrives, the first one included.\<close>

fun chat_trace :: "nat option \<Rightarrow> (string \<times> chat_event) list \<Rightarrow> chat_state \<Rightarrow> chat_state list" where
  "chat_trace user [] s = [s]"
| "chat_trace user (e # es) s = s # chat_trace user es (chat_deliver user e s)"

definition chat_run :: "nat option \<Rightarrow> (string \<times> chat_event) list \<Rightarrow> chat_state \<Rightarrow> chat_state" where
  "chat_run user es s = foldl (\<lambda>s' e. chat_deliver user e s') s es"

subsection \<open>Rendering of the delivery state\<close>

text \<open>
  The delivery state the two flags of a message stand for, as the tick logic tests them:
  read first, then delivered. \<^verbatim>\<open>getTickStatus\<close> inside \<^verbatim>\<open>renderMessage\<close> shows it for the
  messages of the user of the current render and shows nothing for the others.
\<close>

definition deliveryState :: "message \<Rightarrow> delivery_status" where
  "deliveryState item =
     (if is_read item then StatusRead
      else if is_delivered item then StatusDelivered
      else StatusSent)"


fun rank :: "delivery_status \<Rightarrow> nat" where
  "rank StatusSent = 0"
| "rank StatusDelivered = 1"
| "rank StatusRead = 2"

section \<open>The socket service\<close>

text \<open>
  \<^verbatim>\<open>SocketService\<close>: \<open>socket\<close> says whether \<^verbatim>\<open>this.socket\<close> is set, \<open>emitted\<close> lists the
  frames handed to \<^verbatim>\<open>socket.emit\<close> so far, \<open>connectToken\<close> is the token the lifecycle
  listeners have captured. The service has no other state: it keeps no queue of frames
  and no flag for the \<^verbatim>\<open>authenticated\<close> event.
\<close>

datatype app_state = Active | Background | Inactive

datatype payload =
    NoPayload
  | Token string
  | AppState app_state
  | ConversationRef nat
  | MessageSend nat string nat
  | ConversationUser nat nat
  | Data string

record socket_service =
  socket :: bool
  isConnected :: bool
  heartbeatInterval :: bool
  connectToken :: string
  emitted :: "(string \<times> payload) list"
  svc_console :: "log_line list"

definition svc_log :: "log_line \<Rightarrow> socket_service \<Rightarrow> socket_service" where
  "svc_log l s = s\<lparr>svc_console := svc_console s @ [l]\<rparr>"

definition emit :: "string \<Rightarrow> payload \<Rightarrow> socket_service \<Rightarrow> socket_service" where
  "emit name p s = s\<lparr>emitted := emitted s @ [(name, p)]\<rparr>"

text \<open>\<^verbatim>\<open>connect()\<close>: without a token nothing is created and the result is \<^verbatim>\<open>false\<close>.\<close>

definition connect :: "string option \<Rightarrow> socket_service \<Rightarrow> bool \<times> socket_service" where
  "connect token s =
     (case token of
        None \<Rightarrow> (False, svc_log (Log ''Error connecting to socket: No auth token available'') s)
      | Some t \<Rightarrow>
          if t = [] then (False, svc_log (Log ''Error connecting to socket: No auth token available'') s)
          else (True, (svc_log (Log ''Connecting to socket'') s)\<lparr>socket := True, connectToken := t\<rparr>))"

definition startHeartbeat :: "socket_service \<Rightarrow> socket_service" where
  "startHeartbeat s = s\<lparr>heartbeatInterval := True\<rparr>"

definition stopHeartbeat :: "socket_service \<Rightarrow> socket_service" where
  "stopHeartbeat s = (if heartbeatInterval s then s\<lparr>heartbeatInterval := False\<rparr> else s)"

text \<open>The lifecycle listeners registered by \<^verbatim>\<open>connect()\<close>, and the heartbeat's tick.\<close>

definition on_connect :: "socket_service \<Rightarrow> socket_service" where
  "on_connect s =
     (let s1 = (svc_log (Log ''Socket connected successfully'') s)\<lparr>isConnected := True\<rparr>
      in if socket s1 then emit ''authenticate'' (Token (connectToken s1)) s1 else s1)"

definition on_authenticated :: "socket_service \<Rightarrow> socket_service" where
  "on_authenticated s = startHeartbeat (svc_log (Log ''Socket authenticated successfully:'') s)"

definition on_authentication_error :: "socket_service \<Rightarrow> socket_service" where
  "on_authentication_error s =
     (svc_log (Err ''Socket authentication failed:'') s)\<lparr>isConnected := False\<rparr>"

definition on_connect_error :: "socket_service \<Rightarrow> socket_service" where
  "on_connect_error s = (svc_log (Err ''Socket connection error:'') s)\<lparr>isConnected := False\<rparr>"

definition on_disconnect :: "socket_service \<Rightarrow> socket_service" where
  "on_disconnect s =
     stopHeartbeat ((svc_log (Log ''Socket disconnected:'') s)\<lparr>isConnected := False\<rparr>)"

definition on_reconnect :: "socket_service \<Rightarrow> socket_service" where
  "on_reconnect s =
     (let s1 = (svc_log (Log ''Socket reconnected'') s)\<lparr>isConnected := True\<rparr>
      in if socket s1 then emit ''authenticate'' (Token (connectToken s1)) s1 else s1)"

definition heartbeat_tick :: "socket_service \<Rightarrow> socket_service" where
  "heartbeat_tick s =
     (if heartbeatInterval s \<and> socket s \<and> isConnected s then emit ''heartbeat'' NoPayload s else s)"

definition disconnect :: "socket_service \<Rightarrow> socket_service" where
  "disconnect s =
     (let s1 = stopHeartbeat s
      in if socket s1 then s1\<lparr>socket := False, isConnected := False\<rparr> else s1)"

text \<open>The typed send operations.\<close>

definition updateAppState :: "app_state \<Rightarrow> socket_service \<Rightarrow> socket_service" where
  "updateAppState st s =
     (if socket s \<and> isConnected s then emit ''app_state_change'' (AppState st) s else s)"

definition joinConversation :: "nat \<Rightarrow> socket_service \<Rightarrow> socket_service" where
  "joinConversation cid s =
     (if socket s \<and> isConnected s then emit ''join'' (ConversationRef cid) s else s)"

definition leaveConversation :: "nat \<Rightarrow> socket_service \<Rightarrow> socket_service" where
  "leaveConversation cid s =
     (if socket s \<and> isConnected s then emit ''leave'' (ConversationRef cid) s else s)"

definition sendMessage :: "nat \<Rightarrow> string \<Rightarrow> nat \<Rightarrow> socket_service \<Rightarrow> socket_service" where
  "sendMessage cid text senderId s =
     (if socket s \<and> isConnected s
      then emit ''message:send'' (MessageSend cid text senderId) s else s)"

definition startTyping :: "nat \<Rightarrow> nat \<Rightarrow> socket_service \<Rightarrow> socket_service" where
  "startTyping cid userId s =
     (if socket s \<and> isConnected s
      then emit ''typing:start'' (ConversationUser cid userId) s else s)"

definition stopTyping :: "nat \<Rightarrow> nat \<Rightarrow> socket_service \<Rightarrow> socket_service" where
  "stopTyping cid userId s =
     (if socket s \<and> isConnected s
      then emit ''typing:stop'' (ConversationUser cid userId) s else s)"

definition markAsRead :: "nat \<Rightarrow> nat \<Rightarrow> socket_service \<Rightarrow> socket_service" where
  "markAsRead cid userId s =
     (if socket s \<and> isConnected s
      then emit ''message:read'' (ConversationUser cid userId) s else s)"

definition emitCustomEvent :: "string \<Rightarrow> string \<Rightarrow> socket_service \<Rightarrow> socket_service" where
  "emitCustomEvent eventName d s =
     (if socket s \<and> isConnected s then emit eventName (Data d) s else s)"

text \<open>A freshly constructed service.\<close>

definition newSocketService :: socket_service where
  "newSocketService =
     \<lparr>socket = False, isConnected = False, heartbeatInterval = False, connectToken = [],
      emitted = [], svc_console = []\<rparr>"

section \<open>Example values\<close>

text \<open>
  Conversation 7 with user 9, as in the examples of the specification, parametrised by
  its unread count and last message; a screen state of local user 1 holding a given list,
  with the listeners the mount effect has registered.
\<close>

definition conversation7 :: "'u \<Rightarrow> string \<Rightarrow> 'u conversation_of" where
  "conversation7 u msg =
     \<lparr> conversation_id = 7, other_user_id = 9, other_user_name = ''Asha'',
       other_user_email = ''asha@example.org'', other_user_avatar = [],
       other_user_online = True, other_user_last_seen = ''2024-05-01T09:00:00Z'',
       last_message = Some msg, last_message_time = ''2024-05-01T10:00:00Z'',
       last_message_sender_id = 9, unread_count = u, other_user_typing = Some True \<rparr>"

definition homeOf :: "conversation list \<Rightarrow> home_state" where
  "homeOf cs =
     \<lparr> conversations = cs, currentUser = Some 1, processedMessageKeys = {},
       isUpdatingConversations = False, lastMessageUpdate = 0, loading = False,
       updateTimeoutRef = None, listeners = [firstRender], timers = [], nextTimerId = 1,
       clock = 1714557900000,
       authToken = Some ''jwt'', storedUser = Some ''{id:1}'', route = Home,
       pulls = 0, console = [] \<rparr>"

text \<open>The event \<^verbatim>\<open>message:new{conversationId=7, senderId=9, id=101}\<close>.\<close>

definition message101 :: new_message where
  "message101 =
     \<lparr> msg_id = Some 101, msg_conversation_id = 7, sender_id = 9, content = Some ''see you'',
       message_type = ''text'', is_delivered = False, is_read = False, delivered_at = None,
       read_at = None, created_at = ''2024-05-01T10:05:00Z'', sender_name = ''Asha'',
       deliveryStatus = Some StatusSent, conversationId = 7 \<rparr>"

text \<open>
  Message 101 as user 1 has sent it in conversation 7, not yet delivered, and the chat
  screen of user 1 with user 9 holding a given list of messages.
\<close>

definition sent101 :: message where
  "sent101 =
     \<lparr> msg_id = Some 101, msg_conversation_id = 7, sender_id = 1, content = Some ''on my way'',
       message_type = ''text'', is_delivered = False, is_read = False, delivered_at = None,
       read_at = None, created_at = ''2024-05-01T10:06:00Z'', sender_name = ''Ravi'',
       deliveryStatus = Some StatusSent \<rparr>"

definition chatOf :: "message list \<Rightarrow> chat_state" where
  "chatOf ms =
     \<lparr> messages = ms, chat_currentUser = Some 1, chat_conversationId = 7, otherUserId = 9,
       isTyping = False, otherUserOnline = False, focused = True, chat_emitted = [],
       chat_console = [] \<rparr>"

text \<open>
  The echo of a message user 1 has sent in conversation 7, and an unread message of user 9
  that has not been delivered.
\<close>

definition message102 :: new_message where
  "message102 =
     \<lparr> msg_id = Some 102, msg_conversation_id = 7, sender_id = 1, content = Some ''on my way'',
       message_type = ''text'', is_delivered = False, is_read = False, delivered_at = None,
       read_at = None, created_at = ''2024-05-01T10:06:00Z'', sender_name = ''Ravi'',
       deliveryStatus = Some StatusSent, conversationId = 7 \<rparr>"

definition now1 :: string where
  "now1 = ''2024-05-01T10:07:00.000Z''"

section \<open>Properties of the conversation list screen\<close>

subsection \<open>Snapshot merge\<close>

lemma settled_conversations:
  "conversations (updateConversationsSilently_settled k (Response True convs) s) =
     mergeSnapshot (conversations s) (map processConversation convs)"
  by (simp add: updateConversationsSilently_settled_def Let_def console_log_def)

text \<open>
  Claim C1, the freshness rule of the snapshot merge, which is the state update of
  \<^verbatim>\<open>updateConversationsSilently\<close>, whichever instance of the function runs it. Take a
  successful pull and a row of it, at position
  \<open>i\<close>, whose conversation is also in the local list (\<open>existingConv\<close> is the local
  entry the merge looks up). The merged list holds at position \<open>i\<close> that
  conversation, and its unread count is the local one when the last-message time, content
  and sender id of the two agree and the local count is strictly greater than the incoming
  one; in every other case it is the incoming count.
\<close>

theorem snapshot_merge_freshness_rule:
  assumes "i < length convs"
      and "find (\<lambda>c. conversation_id c = conversation_id (convs ! i)) (conversations s)
             = Some existingConv"
  shows "let incoming = processConversation (convs ! i);
             merged = conversations (updateConversationsSilently_settled k (Response True convs) s) ! i;
             preserveLocal =
               (last_message_time existingConv = last_message_time incoming \<and>
                last_message existingConv = last_message incoming \<and>
                last_message_sender_id existingConv = last_message_sender_id incoming)
         in conversation_id merged = conversation_id existingConv \<and>
            unread_count merged =
              (if preserveLocal \<and> unread_count existingConv > unread_count incoming
               then unread_count existingConv
               else unread_count incoming)"
proof -
  have cid: "conversation_id (processConversation (convs ! i)) = conversation_id (convs ! i)"
    by (simp add: processConversation_def)
  have same: "conversation_id existingConv = conversation_id (convs ! i)"
    using assms(2) by (auto dest: find_Some_iff[THEN iffD1])
  show ?thesis
    using assms cid same
    by (simp add: settled_conversations mergeSnapshot_def mergeConversation_def
        finalUnreadCount_def shouldPreserveUnreadCount_def Let_def)
qed

text \<open>
  The two examples of the specification: local count 3 against an incoming 1 with the same
  last message keeps 3; against an incoming 4 with a changed last message it becomes 4.
\<close>

theorem snapshot_merge_freshness_rule_witness:
  "unread_count (conversations (updateConversationsSilently_settled firstRender
       (Response True [conversation7 (JNum 1) ''hello''])
       (homeOf [conversation7 3 ''hello''])) ! 0) = 3 \<and>
   unread_count (conversations (updateConversationsSilently_settled firstRender
       (Response True [conversation7 (JStr ''4'') ''changed''])
       (homeOf [conversation7 3 ''hello''])) ! 0) = 4"
proof -
  have a: "find (\<lambda>c. conversation_id c = conversation_id ([conversation7 (JNum 1) ''hello''] ! 0))
             (conversations (homeOf [conversation7 3 ''hello''])) = Some (conversation7 3 ''hello'')"
    by (simp add: conversation7_def homeOf_def)
  have b: "find (\<lambda>c. conversation_id c = conversation_id ([conversation7 (JStr ''4'') ''changed''] ! 0))
             (conversations (homeOf [conversation7 3 ''hello''])) = Some (conversation7 3 ''hello'')"
    by (simp add: conversation7_def homeOf_def)
  have p4: "parseInt ''4'' = Some 4"
    by (simp add: parseInt_def isStrWhiteSpace_def digitValue_def Let_def)
  show ?thesis
    using snapshot_merge_freshness_rule[OF _ a, of firstRender]
      snapshot_merge_freshness_rule[OF _ b, of firstRender] p4
    by (simp add: Let_def processConversation_def processUnreadCount_def orZero_def conversation7_def)
qed

subsection \<open>Event-driven merge\<close>

lemma silent_console_log [simp]: "silent (console_log l s) = silent s"
  by (simp add: silent_def console_log_def)

lemma onNewMessage_no_conversation:
  "conversationId m = 0 \<Longrightarrow> silent (onNewMessage k m s) = silent s"
  by (simp add: onNewMessage_def Let_def)

lemma onNewMessage_duplicate:
  "messageKey m \<in> processedMessageKeys s \<Longrightarrow> silent (onNewMessage k m s) = silent s"
  by (simp add: onNewMessage_def Let_def console_log_def silent_def)

lemma processed_checkAndAdd [simp]:
  "processedMessageKeys (checkAndAddNewConversation k m s) = processedMessageKeys s"
  by (simp add: checkAndAddNewConversation_def console_log_def split: option.splits)

lemma processed_update [simp]:
  "processedMessageKeys (updateConversationWithNewMessage k m s) = processedMessageKeys s"
  by (simp add: updateConversationWithNewMessage_def console_log_def)

lemma conversations_checkAndAdd [simp]:
  "conversations (checkAndAddNewConversation k m s) = conversations s"
  by (simp add: checkAndAddNewConversation_def console_log_def split: option.splits)

lemma onNewMessage_records_key:
  "conversationId m \<noteq> 0 \<Longrightarrow> messageKey m \<in> processedMessageKeys (onNewMessage k m s)"
  by (simp add: onNewMessage_def Let_def console_log_def setTimeout_def)

lemma onNewMessage_keeps_keys:
  "x \<in> processedMessageKeys s \<Longrightarrow> x \<in> processedMessageKeys (onNewMessage k m s)"
  by (simp add: onNewMessage_def Let_def console_log_def setTimeout_def)

lemma onNewMessage_listeners [simp]: "listeners (onNewMessage k m s) = listeners s"
  by (simp add: onNewMessage_def Let_def console_log_def setTimeout_def
      updateConversationWithNewMessage_def checkAndAddNewConversation_def split: option.splits)

lemma onNewMessage_fresh_conversations:
  "conversationId m \<noteq> 0 \<Longrightarrow> messageKey m \<notin> processedMessageKeys s \<Longrightarrow>
   conversations (onNewMessage k m s) = conversations (updateConversationWithNewMessage k m s)"
  by (simp add: onNewMessage_def Let_def console_log_def setTimeout_def
      updateConversationWithNewMessage_def)

lemma onNewMessage_twice:
  "silent (onNewMessage k' m (onNewMessage k m s)) = silent (onNewMessage k m s)"
proof (cases "conversationId m = 0")
  case True
  then show ?thesis by (simp add: onNewMessage_no_conversation)
next
  case False
  then show ?thesis by (simp add: onNewMessage_duplicate onNewMessage_records_key)
qed

lemma silent_conversations: "silent s = silent t \<Longrightarrow> conversations s = conversations t"
  by (auto simp: silent_def dest: arg_cong[where f = conversations])

lemma silent_listeners: "silent s = silent t \<Longrightarrow> listeners s = listeners t"
  by (auto simp: silent_def dest: arg_cong[where f = listeners])

text \<open>What a list of listener instances does to an event that none of them merges.\<close>

lemma listeners_discard:
  "conversationId m = 0 \<or> messageKey m \<in> processedMessageKeys s \<Longrightarrow>
   silent (foldl (\<lambda>s' k. onNewMessage k m s') s ks) = silent s"
proof (induction ks arbitrary: s)
  case Nil
  then show ?case by simp
next
  case (Cons k ks)
  have "conversationId m = 0 \<or> messageKey m \<in> processedMessageKeys (onNewMessage k m s)"
    using Cons.prems by (auto simp: onNewMessage_keeps_keys)
  then have "silent (foldl (\<lambda>s' k. onNewMessage k m s') (onNewMessage k m s) ks)
               = silent (onNewMessage k m s)"
    by (rule Cons.IH)
  also have "\<dots> = silent s"
    using Cons.prems by (auto simp: onNewMessage_no_conversation onNewMessage_duplicate)
  finally show ?case by simp
qed

lemma listeners_keep_keys:
  "x \<in> processedMessageKeys s \<Longrightarrow>
   x \<in> processedMessageKeys (foldl (\<lambda>s' k. onNewMessage k m s') s ks)"
  by (induction ks arbitrary: s) (simp_all add: onNewMessage_keeps_keys)

lemma listeners_same:
  "listeners (foldl (\<lambda>s' k. onNewMessage k m s') s ks) = listeners s"
  by (induction ks arbitrary: s) simp_all

lemma dispatch_new:
  "dispatch (EvMessageNew m) s = foldl (\<lambda>s' k. onNewMessage k m s') s (listeners s)"
  by (simp add: dispatch_def)

lemma dispatch_twice:
  "silent (dispatch (EvMessageNew m) (dispatch (EvMessageNew m) s)) = silent (dispatch (EvMessageNew m) s)"
proof (cases "listeners s")
  case Nil
  then show ?thesis by (simp add: dispatch_new)
next
  case (Cons k ks)
  let ?s1 = "dispatch (EvMessageNew m) s"
  have "conversationId m = 0 \<or> messageKey m \<in> processedMessageKeys ?s1"
  proof (cases "conversationId m = 0")
    case True
    then show ?thesis by simp
  next
    case False
    then have "messageKey m \<in> processedMessageKeys (onNewMessage k m s)"
      by (rule onNewMessage_records_key)
    then have "messageKey m \<in> processedMessageKeys
                 (foldl (\<lambda>s' k. onNewMessage k m s') (onNewMessage k m s) ks)"
      by (rule listeners_keep_keys)
    then show ?thesis using Cons by (simp add: dispatch_new)
  qed
  then show ?thesis
    unfolding dispatch_new[of m ?s1] by (rule listeners_discard)
qed

lemma dispatch_first_listener:
  assumes "listeners s = k # ks" and "conversationId m \<noteq> 0"
  shows "silent (dispatch (EvMessageNew m) s) = silent (onNewMessage k m s)"
  using assms listeners_discard[of m "onNewMessage k m s" ks]
  by (simp add: dispatch_new onNewMessage_records_key)

text \<open>
  Claim C2, idempotence of the \<^verbatim>\<open>message:new\<close> listener. Apart from the console output,
  delivering an event a second time, to the same or to another instance of the listener,
  leaves the state of the screen (conversations, processed keys, timers, pull count) as
  the first delivery left it; more generally an event whose key is already among the
  processed keys changes nothing. When the first delivery is of a new key, the conversation
  id is set and the sender is not the user the listener has captured (no user, or the
  local one), the two deliveries together raise the unread count of the conversation by
  exactly 1 and leave the other counts alone. The second delivery also starts no pull and
  no timer, so nothing of it is left to run later. The same holds when each delivery goes
  to all the listeners registered on the socket, however many there are: the first one
  merges the event, the others and the whole second round discard it.
\<close>

theorem message_event_idempotent:
  "silent (onNewMessage k' m (onNewMessage k m s)) = silent (onNewMessage k m s) \<and>
   (messageKey m \<in> processedMessageKeys s \<longrightarrow> silent (onNewMessage k m s) = silent s) \<and>
   (conversationId m \<noteq> 0 \<and> messageKey m \<notin> processedMessageKeys s \<and>
    Some (sender_id m) \<noteq> seen_currentUser k \<longrightarrow>
      map unread_count (conversations (onNewMessage k' m (onNewMessage k m s))) =
      map (\<lambda>c. if conversation_id c = conversationId m then unread_count c + 1 else unread_count c)
        (conversations s)) \<and>
   silent (dispatch (EvMessageNew m) (dispatch (EvMessageNew m) s))
     = silent (dispatch (EvMessageNew m) s) \<and>
   (conversationId m \<noteq> 0 \<and> messageKey m \<notin> processedMessageKeys s \<and> listeners s \<noteq> [] \<and>
    Some (sender_id m) \<noteq> seen_currentUser (hd (listeners s)) \<longrightarrow>
      map unread_count (conversations (dispatch (EvMessageNew m) (dispatch (EvMessageNew m) s))) =
      map (\<lambda>c. if conversation_id c = conversationId m then unread_count c + 1 else unread_count c)
        (conversations s))"
proof (intro conjI impI)
  show "silent (onNewMessage k' m (onNewMessage k m s)) = silent (onNewMessage k m s)"
    by (rule onNewMessage_twice)
next
  assume "messageKey m \<in> processedMessageKeys s"
  then show "silent (onNewMessage k m s) = silent s" by (rule onNewMessage_duplicate)
next
  assume a: "conversationId m \<noteq> 0 \<and> messageKey m \<notin> processedMessageKeys s \<and>
    Some (sender_id m) \<noteq> seen_currentUser k"
  have "conversations (onNewMessage k' m (onNewMessage k m s)) = conversations (onNewMessage k m s)"
    using onNewMessage_twice by (rule silent_conversations)
  also have "\<dots> = conversations (updateConversationWithNewMessage k m s)"
    using a by (simp add: onNewMessage_fresh_conversations)
  finally show "map unread_count (conversations (onNewMessage k' m (onNewMessage k m s))) =
      map (\<lambda>c. if conversation_id c = conversationId m then unread_count c + 1 else unread_count c)
        (conversations s)"
    using a by (simp add: updateConversationWithNewMessage_def console_log_def orZero_def Let_def
        comp_def if_distrib cong: if_cong)
next
  show "silent (dispatch (EvMessageNew m) (dispatch (EvMessageNew m) s))
     = silent (dispatch (EvMessageNew m) s)"
    by (rule dispatch_twice)
next
  assume a: "conversationId m \<noteq> 0 \<and> messageKey m \<notin> processedMessageKeys s \<and> listeners s \<noteq> [] \<and>
    Some (sender_id m) \<noteq> seen_currentUser (hd (listeners s))"
  then obtain k0 ks where l: "listeners s = k0 # ks" by (cases "listeners s") auto
  have "conversations (dispatch (EvMessageNew m) (dispatch (EvMessageNew m) s))
          = conversations (dispatch (EvMessageNew m) s)"
    using dispatch_twice by (rule silent_conversations)
  also have "\<dots> = conversations (onNewMessage k0 m s)"
    using dispatch_first_listener[OF l] a by (intro silent_conversations) simp
  also have "\<dots> = conversations (updateConversationWithNewMessage k0 m s)"
    using a by (simp add: onNewMessage_fresh_conversations)
  finally show "map unread_count (conversations (dispatch (EvMessageNew m) (dispatch (EvMessageNew m) s))) =
      map (\<lambda>c. if conversation_id c = conversationId m then unread_count c + 1 else unread_count c)
        (conversations s)"
    using a l by (simp add: updateConversationWithNewMessage_def console_log_def orZero_def Let_def
        comp_def if_distrib cong: if_cong)
qed

text \<open>
  The first example of the specification: the event of sender 9 for conversation 7 arrives
  twice at the screen of user 1, and the unread count goes from 2 to 3.
\<close>

theorem message_event_idempotent_witness:
  "map unread_count (conversations (onNewMessage (render (homeOf [conversation7 2 ''hello''])) message101
       (onNewMessage firstRender message101 (homeOf [conversation7 2 ''hello''])))) = [3] \<and>
   map unread_count (conversations (dispatch (EvMessageNew message101)
       (dispatch (EvMessageNew message101) (homeOf [conversation7 2 ''hello''])))) = [3]"
  using message_event_idempotent[of "render (homeOf [conversation7 2 ''hello''])" message101
      firstRender "homeOf [conversation7 2 ''hello'']"]
  by (simp add: message101_def homeOf_def conversation7_def firstRender_def)

text \<open>
  What \<^verbatim>\<open>updateConversationWithNewMessage\<close> does to a local conversation (at position
  \<open>i\<close>) whose id is the conversation id of the event: the last-message content, time and
  sender id are those of the event, the online, typing and last-seen fields are kept, and
  the unread count grows by 1 if and only if the sender is not the user the instance has
  captured.
\<close>

lemma event_merge_by_closure:
  assumes "i < length (conversations s)"
      and "conversation_id (conversations s ! i) = conversationId m"
  shows "let old = conversations s ! i;
             merged = conversations (updateConversationWithNewMessage k m s) ! i
         in last_message merged = content m \<and>
            last_message_time merged = created_at m \<and>
            last_message_sender_id merged = sender_id m \<and>
            unread_count merged =
              (if Some (sender_id m) \<noteq> seen_currentUser k then unread_count old + 1
               else unread_count old) \<and>
            other_user_online merged = other_user_online old \<and>
            other_user_typing merged = other_user_typing old \<and>
            other_user_last_seen merged = other_user_last_seen old"
  using assms
  by (simp add: updateConversationWithNewMessage_def console_log_def orZero_def Let_def)

text \<open>
  Claim C4 says that the unread count grows by 1 if and only if the sender is not the local
  user. On the screen of user 1 the listener registered by the mount effect has captured
  no user: it receives the echo of a message user 1 has sent in conversation 7, finds
  \<^verbatim>\<open>1 !== undefined\<close> and raises the unread count from 2 to 3. A listener registered later,
  with the user captured, runs after it and discards the event, whose key the first one has
  recorded. That later instance alone would have kept the count at 2.
\<close>

theorem own_message_counted_unread:
  "currentUser (homeOf [conversation7 2 ''hello'']) = Some (sender_id message102) \<and>
   map unread_count (conversations (dispatch (EvMessageNew message102)
       (homeOf [conversation7 2 ''hello'']))) = [3] \<and>
   map unread_count (conversations (dispatch (EvMessageNew message102)
       (setupSocketListeners (render (homeOf [conversation7 2 ''hello'']))
          (homeOf [conversation7 2 ''hello''])))) = [3] \<and>
   map unread_count (conversations (onNewMessage (render (homeOf [conversation7 2 ''hello'']))
       message102 (homeOf [conversation7 2 ''hello'']))) = [2]"
  by (simp add: dispatch_def setupSocketListeners_def onNewMessage_def
      updateConversationWithNewMessage_def checkAndAddNewConversation_def setTimeout_def
      console_log_def orZero_def render_def firstRender_def homeOf_def conversation7_def
      message102_def Let_def)

subsection \<open>Read and opened acknowledgments\<close>

lemma conversations_clear:
  "conversations (clearUnreadCountForConversation cid s) =
     map (\<lambda>conv. if conversation_id conv = cid then conv\<lparr>unread_count := 0\<rparr> else conv)
       (conversations s)"
  by (simp add: clearUnreadCountForConversation_def console_log_def)

text \<open>
  The guard of the three acknowledgment listeners compares the user id of the event with the
  user the instance has captured: with a different id the conversation list is unchanged,
  with the same id (and a conversation named) the unread count of that conversation is set
  to 0.
\<close>

lemma acknowledgment_guard:
  "(userId \<noteq> seen_currentUser k \<longrightarrow>
      conversations (onMessageRead k cid userId s) = conversations s \<and>
      conversations (onConversationOpened k cid userId s) = conversations s \<and>
      conversations (onCustomConversationOpened k cid userId s) = conversations s) \<and>
   (userId = seen_currentUser k \<and> cid \<noteq> 0 \<longrightarrow>
      (let cleared = map (\<lambda>conv. if conversation_id conv = cid then conv\<lparr>unread_count := 0\<rparr> else conv)
                       (conversations s)
       in conversations (onMessageRead k cid userId s) = cleared \<and>
          conversations (onConversationOpened k cid userId s) = cleared \<and>
          conversations (onCustomConversationOpened k cid userId s) = cleared))"
  by (simp add: onMessageRead_def onConversationOpened_def onCustomConversationOpened_def
      Let_def conversations_clear console_log_def)

text \<open>
  Claim C3 says that an event whose user id is not the id of the local user leaves every
  unread count unchanged. The listeners registered by the mount effect have captured no
  user, so on the screen of user 1 an event that carries no user id passes the guard
  (\<^verbatim>\<open>undefined === undefined\<close>) and clears the count 3 of conversation 7, for each of the
  three events; the event of user 1 itself does not pass it and the count stays.
\<close>

theorem stale_listener_acknowledgment:
  "currentUser (homeOf [conversation7 3 ''hello'']) = Some 1 \<and>
   map unread_count (conversations (dispatch (EvMessageRead 7 None)
       (homeOf [conversation7 3 ''hello'']))) = [0] \<and>
   map unread_count (conversations (dispatch (EvConversationOpened 7 None)
       (homeOf [conversation7 3 ''hello'']))) = [0] \<and>
   map unread_count (conversations (dispatch (EvCustomConversationOpened 7 None)
       (homeOf [conversation7 3 ''hello'']))) = [0] \<and>
   map unread_count (conversations (dispatch (EvMessageRead 7 (Some 1))
       (homeOf [conversation7 3 ''hello'']))) = [3]"
  by (simp add: dispatch_def onMessageRead_def onConversationOpened_def
      onCustomConversationOpened_def conversations_clear console_log_def firstRender_def
      homeOf_def conversation7_def Let_def)

subsection \<open>Refresh scheduling\<close>

lemma pendingUpdate_first_call:
  assumes "\<not> seen_isUpdatingConversations k" and "timers s = []"
  shows "pendingUpdate (clock s) (pulls s) (updateConversationsSilently k s)"
  using assms
  by (simp add: pendingUpdate_def updateConversationsSilently_def setTimeout_def clearTimeout_def
      Let_def split: option.splits)

lemma advanceTo_not_due:
  assumes "pendingUpdate c0 p0 s" and "t < clock s + 500"
  shows "advanceTo t s = s\<lparr>clock := max (clock s) t\<rparr>"
  using assms
  by (auto simp: pendingUpdate_def advanceTo_def runDueTimers_def split: list.splits)

lemma pendingUpdate_next_call:
  assumes "pendingUpdate c0 p0 s" and "t < c0 + 500" and "\<not> seen_isUpdatingConversations k"
  shows "pendingUpdate c0 p0 (updateConversationsSilently k (advanceTo t s))"
proof -
  have "t < clock s + 500" using assms by (simp add: pendingUpdate_def)
  then have "advanceTo t s = s\<lparr>clock := max (clock s) t\<rparr>"
    using assms(1) by (rule advanceTo_not_due[rotated])
  then show ?thesis
    using assms
    by (auto simp: pendingUpdate_def updateConversationsSilently_def setTimeout_def
        clearTimeout_def Let_def split: list.splits)
qed

lemma pendingUpdate_burst:
  assumes "pendingUpdate c0 p0 s" and "\<forall>t\<in>set ts. t < c0 + 500"
      and "\<not> seen_isUpdatingConversations k"
  shows "pendingUpdate c0 p0 (scheduleAt k ts s)"
  using assms
proof (induction ts arbitrary: s)
  case Nil
  then show ?case by (simp add: scheduleAt_def)
next
  case (Cons t ts)
  have "pendingUpdate c0 p0 (updateConversationsSilently k (advanceTo t s))"
    using Cons.prems by (simp add: pendingUpdate_next_call)
  then have "pendingUpdate c0 p0 (scheduleAt k ts (updateConversationsSilently k (advanceTo t s)))"
    using Cons.prems by (intro Cons.IH) simp_all
  then show ?case by (simp add: scheduleAt_def)
qed

lemma pendingUpdate_fires:
  assumes "pendingUpdate c0 p0 s" and "clock s + 500 \<le> T"
  shows "pulls (advanceTo T s) = Suc p0 \<and> timers (advanceTo T s) = [] \<and>
         isUpdatingConversations (advanceTo T s)"
  using assms
  by (auto simp: pendingUpdate_def advanceTo_def runDueTimers_def fireTimer_def runCallback_def
      clearTimeout_def updateConversationsSilently_timeout_def console_log_def
      split: list.splits timer_callback.splits)

lemma pendingUpdate_waits:
  assumes "pendingUpdate c0 p0 s" and "T < clock s + 500"
  shows "pulls (advanceTo T s) = p0"
  using assms advanceTo_not_due[OF assms] by (simp add: pendingUpdate_def)

lemma settled_timers_pulls:
  "timers s = [] \<Longrightarrow>
   timers (updateConversationsSilently_settled k r s) = [] \<and>
   pulls (updateConversationsSilently_settled k r s) = pulls s"
  by (cases r)
     (simp_all add: updateConversationsSilently_settled_def Let_def console_log_def
        console_error_def getAll_rejected_def responseInterceptor_def)

lemma advanceTo_no_timers: "timers s = [] \<Longrightarrow> pulls (advanceTo T s) = pulls s"
  by (simp add: advanceTo_def runDueTimers_def)

text \<open>
  One call of \<^verbatim>\<open>updateConversationsSilently\<close>: when the instance has captured the flag as
  true it only logs that it skips; otherwise it clears the timer the ref holds and starts
  one timer of 500 ms, without pulling and without logging. The timer's callback sets the
  cell and issues the pull, and the cell is reset when the pull settles, whatever its
  outcome.
\<close>

lemma silent_update_call:
  "(seen_isUpdatingConversations k \<longrightarrow>
      updateConversationsSilently k s =
        s\<lparr>console := console s @ [Log ''Conversation update already in progress, skipping...'']\<rparr>) \<and>
   (\<not> seen_isUpdatingConversations k \<longrightarrow>
      timers (updateConversationsSilently k s) =
        filter (\<lambda>t. Some (timer_id t) \<noteq> updateTimeoutRef s) (timers s) @
        [\<lparr>timer_id = nextTimerId s, due = clock s + 500, callback = SilentUpdate k\<rparr>] \<and>
      updateTimeoutRef (updateConversationsSilently k s) = Some (nextTimerId s) \<and>
      pulls (updateConversationsSilently k s) = pulls s \<and>
      console (updateConversationsSilently k s) = console s) \<and>
   isUpdatingConversations (runCallback (SilentUpdate k) s) \<and>
   pulls (runCallback (SilentUpdate k) s) = Suc (pulls s) \<and>
   \<not> isUpdatingConversations (updateConversationsSilently_settled k r s)"
  by (simp add: updateConversationsSilently_def setTimeout_def clearTimeout_def Let_def
      console_log_def runCallback_def updateConversationsSilently_timeout_def
      updateConversationsSilently_settled_def split: option.splits)

text \<open>
  A burst of calls by an instance that has captured the flag as false, starting with no
  timer pending, all calls less than 500 ms after the first (five calls within 100 ms are
  such a burst): no pull is made during the burst, exactly one is made once 500 ms have
  passed since the last call, and none follows after that pull has settled.
\<close>

lemma burst_single_pull:
  assumes "\<not> seen_isUpdatingConversations k" and "timers s = []"
      and "\<forall>t\<in>set ts. t < clock s + 500"
  shows "let burst = scheduleAt k ts (updateConversationsSilently k s) in
         clock burst < clock s + 500 \<and>
         pulls burst = pulls s \<and>
         (\<forall>T. pulls (advanceTo T burst) =
                (if clock burst + 500 \<le> T then Suc (pulls s) else pulls s)) \<and>
         (\<forall>T T' r'. clock burst + 500 \<le> T \<longrightarrow>
            pulls (advanceTo T' (updateConversationsSilently_settled k r' (advanceTo T burst)))
              = Suc (pulls s))"
proof -
  define burst where "burst = scheduleAt k ts (updateConversationsSilently k s)"
  have inv: "pendingUpdate (clock s) (pulls s) burst"
    unfolding burst_def using assms by (intro pendingUpdate_burst pendingUpdate_first_call) simp_all
  have 1: "clock burst < clock s + 500" and 2: "pulls burst = pulls s"
    using inv by (simp_all add: pendingUpdate_def)
  have 3: "pulls (advanceTo T burst) = (if clock burst + 500 \<le> T then Suc (pulls s) else pulls s)"
    for T
    using pendingUpdate_fires[OF inv, of T] pendingUpdate_waits[OF inv, of T] by simp
  have 4: "pulls (advanceTo T' (updateConversationsSilently_settled k r' (advanceTo T burst)))
              = Suc (pulls s)" if "clock burst + 500 \<le> T" for T T' r'
    using pendingUpdate_fires[OF inv that] settled_timers_pulls[of "advanceTo T burst" k r']
    by (simp add: advanceTo_no_timers)
  show ?thesis
    using 1 2 3 4 unfolding burst_def[symmetric] Let_def by blast
qed

text \<open>
  Claim C7 says that a call made while a refresh is in flight is dropped and logs the skip.
  The test is on the captured flag, and every caller holds an instance that has captured
  it as false; the interval of the mount effect holds the instance of the first render. On
  an idle screen that instance is called, its timer fires 500 ms later and the pull is in
  flight; a second call 100 ms after that is not dropped: nothing is logged but the start
  of the first sync, a new timer is due 500 ms later, and when it fires a second pull is
  issued while the first has not settled.
\<close>

theorem call_in_flight_not_dropped:
  "isUpdatingConversations
     (advanceTo 1714557900500 (updateConversationsSilently firstRender (homeOf []))) \<and>
   pulls (advanceTo 1714557900500 (updateConversationsSilently firstRender (homeOf []))) = 1 \<and>
   console (updateConversationsSilently firstRender
     (advanceTo 1714557900600
       (advanceTo 1714557900500 (updateConversationsSilently firstRender (homeOf [])))))
     = [Log ''Syncing conversations with server for accurate unread counts...''] \<and>
   map due (timers (updateConversationsSilently firstRender
     (advanceTo 1714557900600
       (advanceTo 1714557900500 (updateConversationsSilently firstRender (homeOf []))))))
     = [1714557901100] \<and>
   pulls (advanceTo 1714557901100 (updateConversationsSilently firstRender
     (advanceTo 1714557900600
       (advanceTo 1714557900500 (updateConversationsSilently firstRender (homeOf []))))))
     = 2"
  by (simp add: advanceTo_def runDueTimers_def fireTimer_def runCallback_def
      updateConversationsSilently_def updateConversationsSilently_timeout_def setTimeout_def
      clearTimeout_def console_log_def firstRender_def homeOf_def Let_def)

subsection \<open>Failure of a pull\<close>

lemma rejected_silent:
  "updateConversationsSilently_settled k (Rejected status) s =
     (responseInterceptor status s)
       \<lparr>console := console s @ [Err ''Error fetching conversations:'',
                                  Err ''Error silently updating conversations:''],
        isUpdatingConversations := False\<rparr>"
  by (simp add: updateConversationsSilently_settled_def getAll_rejected_def console_error_def
      responseInterceptor_def)

lemma rejected_checkAndAdd:
  "checkAndAddNewConversation_settled k m (Rejected status) s =
     (responseInterceptor status s)
       \<lparr>console := console s @ [Err ''Error fetching conversations:'',
                                  Err ''Error checking/adding new conversation:'']\<rparr>"
  by (simp add: checkAndAddNewConversation_settled_def getAll_rejected_def console_error_def
      responseInterceptor_def)

lemma rejected_load:
  "loadConversations_settled (Rejected status) s =
     (if status = Some 401 then forceLogout s else s)
       \<lparr>console := console s @ [Err ''Error fetching conversations:'',
                                  Err ''Error loading conversations:''],
        loading := False\<rparr>"
  by (simp add: loadConversations_settled_def getAll_rejected_def console_error_def
      responseInterceptor_def forceLogout_def Let_def)

lemma rejected_refresh:
  "refreshUserStatus_settled (Rejected status) s =
     (if status = Some 401 then forceLogout s else s)
       \<lparr>console := console s @ [Err ''Error fetching conversations:'',
                                  Err ''Error refreshing user status:'']\<rparr>"
  by (simp add: refreshUserStatus_settled_def getAll_rejected_def console_error_def
      responseInterceptor_def forceLogout_def Let_def)

text \<open>
  Claim C6 says that a pull of the conversation list that fails with status 401 always
  tears the session down: token and user cleared, redirect to the login screen. The silent
  update does not: after its pull has failed with 401 the screen is still the conversation
  list.
\<close>

theorem silent_pull_401_no_logout:
  "\<not> (authToken (updateConversationsSilently_settled firstRender (Rejected (Some 401)) (homeOf [])) = None \<and>
      storedUser (updateConversationsSilently_settled firstRender (Rejected (Some 401)) (homeOf [])) = None \<and>
      route (updateConversationsSilently_settled firstRender (Rejected (Some 401)) (homeOf [])) = Login)"
  by (simp add: rejected_silent responseInterceptor_def homeOf_def)

text \<open>
  Claim C6 as amended. When a pull fails, the conversation list is left as it was, whoever
  made the pull. On status 401 the stored token and user are removed in every case (the
  response interceptor does it); the redirect to the login screen is made by
  \<^verbatim>\<open>loadConversations\<close> and \<^verbatim>\<open>refreshUserStatus\<close> only, while the silent update and
  \<^verbatim>\<open>checkAndAddNewConversation\<close> keep the route whatever the status. On any other failure
  the only change is two error lines on the console, next to \<^verbatim>\<open>loading\<close> respectively
  the in-progress flag being reset; the silent update resets its flag on every failure, so
  a later call is not dropped.
\<close>

theorem pull_failure_policy:
  "(let s' = loadConversations_settled (Rejected status) s in
      conversations s' = conversations s \<and>
      (status = Some 401 \<longrightarrow> authToken s' = None \<and> storedUser s' = None \<and> route s' = Login) \<and>
      (status \<noteq> Some 401 \<longrightarrow>
         s' = s\<lparr>console := console s @ [Err ''Error fetching conversations:'',
                                          Err ''Error loading conversations:''],
                loading := False\<rparr>)) \<and>
   (let s' = refreshUserStatus_settled (Rejected status) s in
      conversations s' = conversations s \<and>
      (status = Some 401 \<longrightarrow> authToken s' = None \<and> storedUser s' = None \<and> route s' = Login) \<and>
      (status \<noteq> Some 401 \<longrightarrow>
         s' = s\<lparr>console := console s @ [Err ''Error fetching conversations:'',
                                          Err ''Error refreshing user status:'']\<rparr>)) \<and>
   (let s' = updateConversationsSilently_settled k (Rejected status) s in
      conversations s' = conversations s \<and> route s' = route s \<and>
      \<not> isUpdatingConversations s' \<and>
      (status = Some 401 \<longrightarrow> authToken s' = None \<and> storedUser s' = None) \<and>
      (status \<noteq> Some 401 \<longrightarrow>
         s' = s\<lparr>console := console s @ [Err ''Error fetching conversations:'',
                                          Err ''Error silently updating conversations:''],
                isUpdatingConversations := False\<rparr>)) \<and>
   (let s' = checkAndAddNewConversation_settled k m (Rejected status) s in
      conversations s' = conversations s \<and> route s' = route s \<and>
      (status = Some 401 \<longrightarrow> authToken s' = None \<and> storedUser s' = None) \<and>
      (status \<noteq> Some 401 \<longrightarrow>
         s' = s\<lparr>console := console s @ [Err ''Error fetching conversations:'',
                                          Err ''Error checking/adding new conversation:'']\<rparr>))"
  by (simp add: rejected_silent rejected_checkAndAdd rejected_load rejected_refresh
      responseInterceptor_def forceLogout_def Let_def)

text \<open>Failures with status 401, status 500 and no response on a screen holding conversation 7.\<close>

theorem pull_failure_policy_witness:
  "route (loadConversations_settled (Rejected (Some 401)) (homeOf [conversation7 3 ''hello''])) = Login \<and>
   authToken (refreshUserStatus_settled (Rejected (Some 401)) (homeOf [conversation7 3 ''hello''])) = None \<and>
   route (updateConversationsSilently_settled firstRender (Rejected (Some 401)) (homeOf [conversation7 3 ''hello''])) = Home \<and>
   authToken (updateConversationsSilently_settled firstRender (Rejected (Some 401)) (homeOf [conversation7 3 ''hello''])) = None \<and>
   conversations (updateConversationsSilently_settled firstRender (Rejected (Some 500)) (homeOf [conversation7 3 ''hello'']))
     = [conversation7 3 ''hello''] \<and>
   route (checkAndAddNewConversation_settled firstRender message101 (Rejected None) (homeOf [conversation7 3 ''hello''])) = Home"
  using pull_failure_policy[where status = "Some 401" and s = "homeOf [conversation7 3 ''hello'']"
          and m = message101 and k = firstRender]
        pull_failure_policy[where status = "Some 500" and s = "homeOf [conversation7 3 ''hello'']"
          and m = message101 and k = firstRender]
        pull_failure_policy[where status = None and s = "homeOf [conversation7 3 ''hello'']"
          and m = message101 and k = firstRender]
  by (simp add: Let_def homeOf_def)

section \<open>Properties of the chat screen\<close>

subsection \<open>What the arrival of an event does to a message of the list\<close>

lemma messages_chat_log [simp]: "messages (chat_log l s) = messages s"
  by (simp add: chat_log_def)

lemma pending_length [simp]:
  "length (messages (updatePendingMessageDeliveryStatus user s)) = length (messages s)"
  by (simp add: updatePendingMessageDeliveryStatus_def Let_def)

lemma chat_handle_length: "length (messages s) \<le> length (messages (chat_handle user e s))"
  by (cases e)
     (simp_all add: chat_onNewMessage_def chat_onTypingStart_def chat_onTypingStop_def
        chat_onUserStatusChange_def chat_onUserTypingStatus_def chat_onMessageDelivered_def
        chat_onMessageRead_def Let_def split: option.splits)

lemma chat_handle_nth:
  assumes "i < length (messages s)"
  shows "msg_id (messages (chat_handle user e s) ! i) = msg_id (messages s ! i) \<and>
         (is_delivered (messages s ! i) \<longrightarrow> is_delivered (messages (chat_handle user e s) ! i)) \<and>
         (is_read (messages s ! i) \<longrightarrow> is_read (messages (chat_handle user e s) ! i))"
  using assms
  by (cases e)
     (simp_all add: chat_onNewMessage_def chat_onTypingStart_def chat_onTypingStop_def
        chat_onUserStatusChange_def chat_onUserTypingStatus_def chat_onMessageDelivered_def
        chat_onMessageRead_def updatePendingMessageDeliveryStatus_def Let_def nth_append
        split: option.splits)

lemma markMessagesAsRead_messages:
  "messages (markMessagesAsRead user seen now s) = messages s \<or>
   messages (markMessagesAsRead user seen now s) =
     map (\<lambda>msg. if Some (sender_id msg) \<noteq> user \<and> \<not> is_read msg
                  then msg\<lparr>is_read := True, read_at := Some now\<rparr> else msg) (messages s)"
  by (simp add: markMessagesAsRead_def Let_def)

lemma markMessagesAsRead_length [simp]:
  "length (messages (markMessagesAsRead user seen now s)) = length (messages s)"
  using markMessagesAsRead_messages[of user seen now s] by auto

lemma markMessagesAsRead_nth:
  assumes "i < length (messages s)"
  shows "msg_id (messages (markMessagesAsRead user seen now s) ! i) = msg_id (messages s ! i) \<and>
         is_delivered (messages (markMessagesAsRead user seen now s) ! i)
           = is_delivered (messages s ! i) \<and>
         (is_read (messages s ! i) \<longrightarrow> is_read (messages (markMessagesAsRead user seen now s) ! i))"
  using assms markMessagesAsRead_messages[of user seen now s]
  by (auto split: if_splits)

lemma messages_notify [simp]:
  "messages (notifyConversationListUnreadCleared user s) = messages s"
  by (simp add: notifyConversationListUnreadCleared_def)

lemma focusEffect_length [simp]: "length (messages (focusEffect now s)) = length (messages s)"
  by (simp add: focusEffect_def Let_def)

lemma focusEffect_nth:
  assumes "i < length (messages s)"
  shows "msg_id (messages (focusEffect now s) ! i) = msg_id (messages s ! i) \<and>
         is_delivered (messages (focusEffect now s) ! i) = is_delivered (messages s ! i) \<and>
         (is_read (messages s ! i) \<longrightarrow> is_read (messages (focusEffect now s) ! i))"
  using assms
    markMessagesAsRead_nth[of i "chat_log ''Found unread messages on focus, marking as read'' s"
      "chat_currentUser s" "messages s" now]
  by (simp add: focusEffect_def Let_def)

lemma chat_deliver_length: "length (messages s) \<le> length (messages (chat_deliver user e s))"
  using chat_handle_length[of s user "snd e"] by (simp add: chat_deliver_def Let_def)

lemma chat_deliver_nth:
  assumes "i < length (messages s)"
  shows "msg_id (messages (chat_deliver user e s) ! i) = msg_id (messages s ! i) \<and>
         (is_delivered (messages s ! i) \<longrightarrow> is_delivered (messages (chat_deliver user e s) ! i)) \<and>
         (is_read (messages s ! i) \<longrightarrow> is_read (messages (chat_deliver user e s) ! i))"
proof -
  have len: "i < length (messages (chat_handle user (snd e) s))"
    using assms chat_handle_length[of s user "snd e"] by simp
  show ?thesis
    using chat_handle_nth[OF assms, of user "snd e"] focusEffect_nth[OF len, of "fst e"]
    by (simp add: chat_deliver_def Let_def)
qed

lemma deliveryState_mono:
  "(is_delivered a \<longrightarrow> is_delivered b) \<Longrightarrow> (is_read a \<longrightarrow> is_read b) \<Longrightarrow>
   rank (deliveryState a) \<le> rank (deliveryState b)"
  by (simp add: deliveryState_def)

lemma chat_run_Cons: "chat_run user (e # es) s = chat_run user es (chat_deliver user e s)"
  by (simp add: chat_run_def)

lemma chat_run_nth:
  assumes "i < length (messages s)"
  shows "i < length (messages (chat_run user es s)) \<and>
         msg_id (messages (chat_run user es s) ! i) = msg_id (messages s ! i) \<and>
         (is_delivered (messages s ! i) \<longrightarrow> is_delivered (messages (chat_run user es s) ! i)) \<and>
         (is_read (messages s ! i) \<longrightarrow> is_read (messages (chat_run user es s) ! i))"
  using assms
proof (induction es arbitrary: s)
  case Nil
  then show ?case by (simp add: chat_run_def)
next
  case (Cons e es)
  have len: "i < length (messages (chat_deliver user e s))"
    using Cons.prems chat_deliver_length[of s user e] by simp
  show ?case
    using Cons.IH[OF len] chat_deliver_nth[OF Cons.prems, of user e]
    by (simp add: chat_run_Cons)
qed

lemma chat_trace_nonempty: "chat_trace user es s \<noteq> []"
  by (cases es) simp_all

lemma chat_trace_ranks_sorted:
  assumes "i < length (messages s)"
  shows "sorted (map (\<lambda>st. rank (deliveryState (messages st ! i))) (chat_trace user es s))"
  using assms
proof (induction es arbitrary: s)
  case Nil
  then show ?case by simp
next
  case (Cons e es)
  have len: "i < length (messages (chat_deliver user e s))"
    using Cons.prems chat_deliver_length[of s user e] by simp
  have step: "rank (deliveryState (messages s ! i))
                \<le> rank (deliveryState (messages (chat_deliver user e s) ! i))"
    using chat_deliver_nth[OF Cons.prems, of user e] by (simp add: deliveryState_mono)
  have hd_tr: "\<And>t. hd (chat_trace user es t) = t" by (cases es) simp_all
  have "sorted (map (\<lambda>st. rank (deliveryState (messages st ! i)))
          (chat_trace user es (chat_deliver user e s)))"
    using Cons.IH[OF len] .
  moreover have "\<forall>y \<in> set (map (\<lambda>st. rank (deliveryState (messages st ! i)))
          (chat_trace user es (chat_deliver user e s))).
      rank (deliveryState (messages (chat_deliver user e s) ! i)) \<le> y"
    using calculation chat_trace_nonempty[of user es "chat_deliver user e s"]
      hd_tr[of "chat_deliver user e s"]
    by (cases "chat_trace user es (chat_deliver user e s)") auto
  ultimately show ?case using step by (auto intro: order_trans)
qed

lemma ranks_subseq:
  "sorted (map rank (x # xs)) \<Longrightarrow>
   subseq (remdups_adj (x # xs)) (drop (rank x) [StatusSent, StatusDelivered, StatusRead])"
proof (induction xs arbitrary: x)
  case Nil
  then show ?case by (cases x) simp_all
next
  case (Cons y ys)
  have IH: "subseq (remdups_adj (y # ys)) (drop (rank y) [StatusSent, StatusDelivered, StatusRead])"
    using Cons.prems by (intro Cons.IH) simp
  have le: "rank x \<le> rank y" using Cons.prems by simp
  show ?case
  proof (cases "x = y")
    case True
    then show ?thesis using IH by simp
  next
    case False
    then show ?thesis using IH le
      by (cases x; cases y) (simp_all add: subseq_Cons')
  qed
qed

subsection \<open>Delivery states\<close>

text \<open>
  Claim C8 says that the delivery states a message visits form a prefix of Sent,
  Delivered, Read. A read event that reaches message 101 while it is still in the Sent state
  takes it to Read directly: the states visited are Sent, Read, which is not a prefix.
\<close>

theorem read_skips_delivered:
  "map (\<lambda>st. deliveryState (messages st ! 0))
     (chat_trace None [(now1, MessageRead 7 (Some [101]))] (chatOf [sent101]))
     = [StatusSent, StatusRead] \<and>
   \<not> prefix (map (\<lambda>st. deliveryState (messages st ! 0))
               (chat_trace None [(now1, MessageRead 7 (Some [101]))] (chatOf [sent101])))
        [StatusSent, StatusDelivered, StatusRead]"
  by (simp add: chat_deliver_def chat_onMessageRead_def includesId_def focusEffect_def
      deliveryState_def chat_log_def chatOf_def sent101_def Let_def)

text \<open>
  Claim C8 as amended. Take a message of the list (at position \<open>i\<close>; events only append, so
  the position stays) and any sequence of inbound events: new messages, typing, presence of
  the other user, delivery confirmations and read events, each with the focus effect it
  sets off on a focused screen. Nothing resets \<^verbatim>\<open>is_delivered\<close> or \<^verbatim>\<open>is_read\<close> once it is
  true. The delivery state of the message (Read if \<^verbatim>\<open>is_read\<close>, else Delivered if
  \<^verbatim>\<open>is_delivered\<close>, else Sent) never moves backwards along the states the screen goes
  through, and the states visited, repetitions dropped, are a subsequence of Sent,
  Delivered, Read in that order: one of them may be missing, Delivered in particular.
\<close>

theorem delivery_state_monotone:
  assumes "i < length (messages s)"
  shows "i < length (messages (chat_run user es s)) \<and>
         (is_delivered (messages s ! i) \<longrightarrow> is_delivered (messages (chat_run user es s) ! i)) \<and>
         (is_read (messages s ! i) \<longrightarrow> is_read (messages (chat_run user es s) ! i)) \<and>
         sorted (map (\<lambda>st. rank (deliveryState (messages st ! i))) (chat_trace user es s)) \<and>
         subseq (remdups_adj (map (\<lambda>st. deliveryState (messages st ! i)) (chat_trace user es s)))
           [StatusSent, StatusDelivered, StatusRead]"
proof -
  let ?visited = "map (\<lambda>st. deliveryState (messages st ! i)) (chat_trace user es s)"
  have srt: "sorted (map (\<lambda>st. rank (deliveryState (messages st ! i))) (chat_trace user es s))"
    using assms by (rule chat_trace_ranks_sorted)
  then have srt': "sorted (map rank ?visited)" by (simp add: comp_def)
  obtain x xs where vis: "?visited = x # xs"
    using chat_trace_nonempty[of user es s] by (cases ?visited) simp_all
  have "subseq (remdups_adj ?visited) (drop (rank x) [StatusSent, StatusDelivered, StatusRead])"
    using srt' unfolding vis by (rule ranks_subseq)
  moreover have "subseq (drop (rank x) [StatusSent, StatusDelivered, StatusRead])
                   [StatusSent, StatusDelivered, StatusRead]"
    by (rule suffix_imp_subseq) (rule suffix_drop)
  ultimately have "subseq (remdups_adj ?visited) [StatusSent, StatusDelivered, StatusRead]"
    by (rule subseq_order.trans)
  then show ?thesis using chat_run_nth[OF assms, of user es] srt by simp
qed

text \<open>
  The fourth example of the specification: message 101, sent, then a delivery confirmation,
  then a read event; the states visited are Sent, Delivered, Read.
\<close>

theorem delivery_state_monotone_witness:
  "map (\<lambda>st. deliveryState (messages st ! 0))
     (chat_trace None [(now1, MessageDelivered 7 (Some 101)), (now1, MessageRead 7 (Some [101]))]
        (chatOf [sent101]))
     = [StatusSent, StatusDelivered, StatusRead] \<and>
   sorted (map (\<lambda>st. rank (deliveryState (messages st ! 0)))
     (chat_trace None [(now1, MessageDelivered 7 (Some 101)), (now1, MessageRead 7 (Some [101]))]
        (chatOf [sent101]))) \<and>
   is_read (messages (chat_run None
     [(now1, MessageDelivered 7 (Some 101)), (now1, MessageRead 7 (Some [101]))]
     (chatOf [sent101])) ! 0)"
proof -
  have a: "(0::nat) < length (messages (chatOf [sent101]))" by (simp add: chatOf_def)
  have b: "map (\<lambda>st. deliveryState (messages st ! 0))
     (chat_trace None [(now1, MessageDelivered 7 (Some 101)), (now1, MessageRead 7 (Some [101]))]
        (chatOf [sent101]))
     = [StatusSent, StatusDelivered, StatusRead]"
    by (simp add: chat_deliver_def chatOf_def sent101_def chat_onMessageDelivered_def
        chat_onMessageRead_def includesId_def deliveryState_def chat_log_def focusEffect_def
        Let_def)
  have c: "is_read (messages (chat_run None
     [(now1, MessageDelivered 7 (Some 101)), (now1, MessageRead 7 (Some [101]))]
     (chatOf [sent101])) ! 0)"
    by (simp add: chat_run_def chat_deliver_def chatOf_def sent101_def chat_onMessageDelivered_def
        chat_onMessageRead_def includesId_def chat_log_def focusEffect_def Let_def)
  show ?thesis
    using delivery_state_monotone[OF a, of None
        "[(now1, MessageDelivered 7 (Some 101)), (now1, MessageRead 7 (Some [101]))]"] b c
    by simp
qed

subsection \<open>Read and delivered\<close>




text \<open>
  The same state comes about without a read event: on the focused screen of user 1 a new
  message of user 9 that is not delivered is appended, the focus effect runs again and
  marks it read.
\<close>

lemma focused_new_message_read_undelivered:
  "map (\<lambda>msg. (msg_id msg, is_read msg, is_delivered msg))
     (messages (chat_deliver None (now1, MessageNew message101) (chatOf [])))
     = [(Some 101, True, False)]"
  by (simp add: chat_deliver_def chatOf_def message101_def chat_onNewMessage_def chat_log_def
      message.truncate_def focusEffect_def markMessagesAsRead_def
      notifyConversationListUnreadCleared_def Let_def)

subsection \<open>Deduplication by message id\<close>

lemma focusEffect_ids: "map msg_id (messages (focusEffect now s)) = map msg_id (messages s)"
proof (rule nth_equalityI)
  show "length (map msg_id (messages (focusEffect now s))) = length (map msg_id (messages s))"
    by simp
next
  fix i assume "i < length (map msg_id (messages (focusEffect now s)))"
  then have "i < length (messages s)" by simp
  then show "map msg_id (messages (focusEffect now s)) ! i = map msg_id (messages s) ! i"
    using focusEffect_nth[of i s now] by simp
qed

lemma chat_handle_ids:
  "map msg_id (messages (chat_handle user e s)) = map msg_id (messages s) \<or>
   (\<exists>m. e = MessageNew m \<and> msg_id m \<notin> set (map msg_id (messages s)) \<and>
        map msg_id (messages (chat_handle user e s)) = map msg_id (messages s) @ [msg_id m])"
proof (cases e)
  case (MessageNew m)
  show ?thesis
  proof (cases "find (\<lambda>msg. msg_id msg = msg_id m) (messages s)")
    case None
    then have "msg_id m \<notin> set (map msg_id (messages s))"
      by (auto simp: find_None_iff)
    then show ?thesis using MessageNew None
      by (simp add: chat_onNewMessage_def Let_def message.truncate_def)
  next
    case (Some a)
    then show ?thesis using MessageNew by (simp add: chat_onNewMessage_def Let_def)
  qed
qed (simp_all add: chat_onTypingStart_def chat_onTypingStop_def
        chat_onUserStatusChange_def chat_onUserTypingStatus_def chat_onMessageDelivered_def
        chat_onMessageRead_def updatePendingMessageDeliveryStatus_def Let_def comp_def
        if_distrib cong: if_cong)

lemma chat_deliver_ids:
  "map msg_id (messages (chat_deliver user e s)) = map msg_id (messages (chat_handle user (snd e) s))"
  by (simp add: chat_deliver_def Let_def focusEffect_ids)

lemma chat_deliver_distinct:
  "distinct (map msg_id (messages s)) \<Longrightarrow> distinct (map msg_id (messages (chat_deliver user e s)))"
  using chat_handle_ids[of user "snd e" s] by (auto simp: chat_deliver_ids)

lemma chat_run_distinct:
  "distinct (map msg_id (messages s)) \<Longrightarrow> distinct (map msg_id (messages (chat_run user es s)))"
  by (induction es arbitrary: s) (simp_all add: chat_run_def chat_deliver_distinct)

text \<open>
  Claim C10, distinct message ids in the chat view. If no two messages of the list have
  the same id, then after any sequence of inbound events no two have; and a
  \<^verbatim>\<open>message:new\<close> event whose id is the id of a message already in the list leaves the
  list unchanged, whatever its other fields are.
\<close>

theorem chat_message_ids_unique:
  "(distinct (map msg_id (messages s)) \<longrightarrow>
      distinct (map msg_id (messages (chat_run user es s)))) \<and>
   (msg_id m \<in> set (map msg_id (messages s)) \<longrightarrow>
      messages (chat_handle user (MessageNew m) s) = messages s \<and>
      messages (chat_deliver user (now, MessageNew m) s) = messages s)"
proof (intro conjI impI)
  assume "distinct (map msg_id (messages s))"
  then show "distinct (map msg_id (messages (chat_run user es s)))" by (rule chat_run_distinct)
next
  assume "msg_id m \<in> set (map msg_id (messages s))"
  then have f: "find (\<lambda>msg. msg_id msg = msg_id m) (messages s) \<noteq> None"
    by (auto simp: find_None_iff)
  then show "messages (chat_handle user (MessageNew m) s) = messages s"
    by (auto simp: chat_onNewMessage_def Let_def)
  from f show "messages (chat_deliver user (now, MessageNew m) s) = messages s"
    by (auto simp: chat_deliver_def chat_onNewMessage_def Let_def)
qed

text \<open>
  Message 101 arrives three times, the last time with another content, in a chat that
  holds message 100: the list ends with the ids 100 and 101.
\<close>

theorem chat_message_ids_unique_witness:
  "map msg_id (messages (chat_run None [(now1, MessageNew message101), (now1, MessageNew message101),
       (now1, MessageNew (message101\<lparr>content := Some ''edited''\<rparr>))]
       (chatOf [sent101 \<lparr>msg_id := Some 100\<rparr>])))
     = [Some 100, Some 101] \<and>
   distinct (map msg_id (messages (chat_run None [(now1, MessageNew message101),
       (now1, MessageNew message101),
       (now1, MessageNew (message101\<lparr>content := Some ''edited''\<rparr>))]
       (chatOf [sent101 \<lparr>msg_id := Some 100\<rparr>]))))"
proof -
  have a: "map msg_id (messages (chat_run None [(now1, MessageNew message101),
       (now1, MessageNew message101),
       (now1, MessageNew (message101\<lparr>content := Some ''edited''\<rparr>))]
       (chatOf [sent101 \<lparr>msg_id := Some 100\<rparr>])))
     = [Some 100, Some 101]"
    by (simp add: chat_run_def chat_deliver_def chatOf_def sent101_def message101_def
        chat_onNewMessage_def chat_log_def message.truncate_def focusEffect_def
        markMessagesAsRead_def notifyConversationListUnreadCleared_def Let_def)
  have d: "distinct (map msg_id (messages (chatOf [sent101 \<lparr>msg_id := Some 100\<rparr>])))"
    by (simp add: chatOf_def)
  show ?thesis
    using chat_message_ids_unique[of "chatOf [sent101 \<lparr>msg_id := Some 100\<rparr>]" None
        "[(now1, MessageNew message101), (now1, MessageNew message101),
          (now1, MessageNew (message101\<lparr>content := Some ''edited''\<rparr>))]" message101] a d
    by simp
qed

section \<open>Properties of the socket service\<close>

text \<open>
  Claim C9 says that every send is a no-op unless the adapter is both connected and
  authenticated, so that nothing but the authenticate command leaves before the
  \<^verbatim>\<open>authenticated\<close> event. The service tests \<^verbatim>\<open>this.socket && this.isConnected\<close> only:
  after \<^verbatim>\<open>connect()\<close> and the \<^verbatim>\<open>connect\<close> event, with no \<^verbatim>\<open>authenticated\<close> event
  received (the heartbeat has not been started), \<^verbatim>\<open>sendMessage\<close> emits its frame.
\<close>

theorem send_before_authenticated:
  "emitted (sendMessage 7 ''hi'' 1 (on_connect (snd (connect (Some ''jwt'') newSocketService))))
     = [(''authenticate'', Token ''jwt''), (''message:send'', MessageSend 7 ''hi'' 1)] \<and>
   \<not> heartbeatInterval (on_connect (snd (connect (Some ''jwt'') newSocketService)))"
  by (simp add: sendMessage_def on_connect_def connect_def newSocketService_def emit_def
      svc_log_def Let_def)

text \<open>
  Claim C9 as amended. Every typed send operation (join, leave, send message, start and
  stop typing, mark-read, custom events, and the app state update) leaves the service
  exactly as it is, nothing emitted and nothing queued, whenever the socket is missing or
  \<^verbatim>\<open>isConnected\<close> is false; otherwise it emits exactly its one frame. \<^verbatim>\<open>isConnected\<close> is set
  by the \<^verbatim>\<open>connect\<close> and \<^verbatim>\<open>reconnect\<close> events, which emit the authenticate command with
  the token, and reset by \<^verbatim>\<open>authentication_error\<close>, \<^verbatim>\<open>connect_error\<close> and
  \<^verbatim>\<open>disconnect\<close>; the \<^verbatim>\<open>authenticated\<close> event changes neither the flag nor the frames
  emitted.
\<close>

theorem send_gating_on_connected:
  "(\<not> (socket s \<and> isConnected s) \<longrightarrow>
      joinConversation cid s = s \<and> leaveConversation cid s = s \<and>
      sendMessage cid body u s = s \<and> startTyping cid u s = s \<and> stopTyping cid u s = s \<and>
      markAsRead cid u s = s \<and> emitCustomEvent name d s = s \<and> updateAppState st s = s) \<and>
   (socket s \<and> isConnected s \<longrightarrow>
      joinConversation cid s = s\<lparr>emitted := emitted s @ [(''join'', ConversationRef cid)]\<rparr> \<and>
      leaveConversation cid s = s\<lparr>emitted := emitted s @ [(''leave'', ConversationRef cid)]\<rparr> \<and>
      sendMessage cid body u s =
        s\<lparr>emitted := emitted s @ [(''message:send'', MessageSend cid body u)]\<rparr> \<and>
      startTyping cid u s =
        s\<lparr>emitted := emitted s @ [(''typing:start'', ConversationUser cid u)]\<rparr> \<and>
      stopTyping cid u s =
        s\<lparr>emitted := emitted s @ [(''typing:stop'', ConversationUser cid u)]\<rparr> \<and>
      markAsRead cid u s =
        s\<lparr>emitted := emitted s @ [(''message:read'', ConversationUser cid u)]\<rparr> \<and>
      emitCustomEvent name d s = s\<lparr>emitted := emitted s @ [(name, Data d)]\<rparr> \<and>
      updateAppState st s = s\<lparr>emitted := emitted s @ [(''app_state_change'', AppState st)]\<rparr>) \<and>
   isConnected (on_connect s) \<and> isConnected (on_reconnect s) \<and>
   \<not> isConnected (on_authentication_error s) \<and> \<not> isConnected (on_connect_error s) \<and>
   \<not> isConnected (on_disconnect s) \<and>
   isConnected (on_authenticated s) = isConnected s \<and>
   socket (on_authenticated s) = socket s \<and>
   emitted (on_authenticated s) = emitted s \<and>
   (socket s \<longrightarrow>
      emitted (on_connect s) = emitted s @ [(''authenticate'', Token (connectToken s))] \<and>
      emitted (on_reconnect s) = emitted s @ [(''authenticate'', Token (connectToken s))])"
  by (simp add: joinConversation_def leaveConversation_def sendMessage_def startTyping_def
      stopTyping_def markAsRead_def emitCustomEvent_def updateAppState_def emit_def
      on_connect_def on_reconnect_def on_authentication_error_def on_connect_error_def
      on_disconnect_def on_authenticated_def startHeartbeat_def stopHeartbeat_def svc_log_def
      Let_def)

text \<open>
  A send before the \<^verbatim>\<open>connect\<close> event and one after a \<^verbatim>\<open>disconnect\<close> emit nothing; one
  made while connected is emitted after the authenticate command.
\<close>

theorem send_gating_on_connected_witness:
  "emitted (sendMessage 7 ''hi'' 1 (snd (connect (Some ''jwt'') newSocketService))) = [] \<and>
   emitted (markAsRead 7 1 (on_disconnect (on_authenticated (on_connect
      (snd (connect (Some ''jwt'') newSocketService)))))) = [(''authenticate'', Token ''jwt'')] \<and>
   emitted (startTyping 7 1 (on_authenticated (on_connect
      (snd (connect (Some ''jwt'') newSocketService)))))
     = [(''authenticate'', Token ''jwt''), (''typing:start'', ConversationUser 7 1)]"
proof -
  let ?s0 = "snd (connect (Some ''jwt'') newSocketService)"
  have s0: "socket ?s0 \<and> \<not> isConnected ?s0 \<and> emitted ?s0 = [] \<and> connectToken ?s0 = ''jwt''"
    by (simp add: connect_def newSocketService_def svc_log_def)
  have s1: "socket (on_connect ?s0) \<and> socket (on_authenticated (on_connect ?s0)) \<and>
            socket (on_disconnect (on_authenticated (on_connect ?s0)))"
    by (simp add: connect_def newSocketService_def svc_log_def on_connect_def emit_def
        on_authenticated_def startHeartbeat_def on_disconnect_def stopHeartbeat_def Let_def)
  have em: "emitted (on_disconnect (on_authenticated (on_connect ?s0))) = emitted (on_connect ?s0)"
    by (simp add: on_authenticated_def startHeartbeat_def on_disconnect_def stopHeartbeat_def
        svc_log_def)
  show ?thesis
    using s0 s1 em
      send_gating_on_connected[where s = "?s0" and cid = 7 and body = "''hi''" and u = 1]
      send_gating_on_connected[where s = "on_disconnect (on_authenticated (on_connect ?s0))"
        and cid = 7 and u = 1]
      send_gating_on_connected[where s = "on_authenticated (on_connect ?s0)" and cid = 7 and u = 1]
      send_gating_on_connected[where s = "on_connect ?s0"]
    by simp
qed

end
